theory Spec2Isabelle
  imports Main
begin

section \<open>Data model\<close>

text \<open>
  Modelled from the spec: the resource types of package \<open>apis/varmor/v1beta1\<close> are not
  among the sources; the records below carry the fields the two controllers read and write. Go's
  \<open>reflect.DeepEqual\<close> on these values is HOL equality. Strings are byte strings.
\<close>

type_synonym labelSelector = "(string \<times> string) list"

record target =
  Target_Kind :: string
  Target_Name :: string
  Target_Containers :: "string list"
  Target_Selector :: "labelSelector option"

text \<open>\<open>Policy_Rules\<close> stands for the mode-specific rule fields, which only the
  profile generator reads. \<open>ModelingDuration\<close> is a Go \<open>int\<close>; it is only compared.\<close>

record policy =
  Policy_Enforcer :: string
  Policy_Mode :: string
  Policy_DefenseInDepth_ModelingDuration :: int
  Policy_Rules :: string

record varmorPolicySpec =
  Spec_Target :: target
  Spec_Policy :: policy

record varmorPolicyCondition =
  Cond_Type :: string
  Cond_Status :: string
  Cond_LastTransitionTime :: nat
  Cond_Reason :: string
  Cond_Message :: string

record varmorPolicyStatus =
  Status_ProfileName :: string
  Status_Conditions :: "varmorPolicyCondition list"
  Status_Ready :: bool
  Status_Phase :: string

text \<open>\<open>VarmorPolicy\<close> and \<open>VarmorClusterPolicy\<close> share spec and status types; a cluster
  policy has an empty namespace.\<close>

record varmorPolicy =
  VP_Namespace :: string
  VP_Name :: string
  VP_ResourceVersion :: string
  VP_Spec :: varmorPolicySpec
  VP_Status :: varmorPolicyStatus

record profile =
  Profile_Name :: string
  Profile_Enforcer :: string
  Profile_Content :: string

record behaviorModeling =
  BM_ModelingDuration :: int
  BM_UniqueID :: string

record armorProfileSpec =
  APSpec_Profile :: profile
  APSpec_Target :: target
  APSpec_BehaviorModeling :: behaviorModeling

record armorProfileStatus =
  APStatus_CurrentNumberLoaded :: int
  APStatus_DesiredNumberLoaded :: int
  APStatus_Conditions :: "string list"

record armorProfile =
  AP_Namespace :: string
  AP_Name :: string
  AP_Spec :: armorProfileSpec
  AP_Status :: armorProfileStatus

record armorProfileModelStatus =
  APMStatus_CompletedNumber :: int
  APMStatus_DesiredNumber :: int
  APMStatus_Conditions :: "string list"
  APMStatus_Ready :: bool

record armorProfileModel =
  APM_Namespace :: string
  APM_Name :: string
  APM_Status :: armorProfileModelStatus

subsection \<open>Constants of package \<open>internal/types\<close> and of the core API\<close>

text \<open>Modelled from the spec: the declarations are not among the sources; each constant
  has the value the spec names it by.\<close>

definition VarmorPolicyCreated :: string where "VarmorPolicyCreated = ''Created''"
definition VarmorPolicyUpdated :: string where "VarmorPolicyUpdated = ''Updated''"

definition VarmorPolicyPending :: string where "VarmorPolicyPending = ''Pending''"
definition VarmorPolicyModeling :: string where "VarmorPolicyModeling = ''Modeling''"
definition VarmorPolicyCompleted :: string where "VarmorPolicyCompleted = ''Completed''"
definition VarmorPolicyProtecting :: string where "VarmorPolicyProtecting = ''Protecting''"
definition VarmorPolicyError :: string where "VarmorPolicyError = ''Error''"
definition VarmorPolicyUnchanged :: string where "VarmorPolicyUnchanged = ''Unchanged''"

definition DefenseInDepthMode :: string where "DefenseInDepthMode = ''DefenseInDepth''"

definition ConditionTrue :: string where "ConditionTrue = ''True''"
definition ConditionFalse :: string where "ConditionFalse = ''False''"

definition maxRetries :: nat where "maxRetries = 5"

section \<open>The controller and its environment\<close>

datatype error = NotFound | Failure string

text \<open>
  The controller's configuration flags, and the functions of packages
  \<open>internal/profile\<close> that it calls: they are not among the sources and are parameters.
  A generator error is a Go \<open>error\<close>, of which only the message \<open>err.Error()\<close> is used.
\<close>

record controller =
  varmorconfig_Namespace :: string
  restartExistWorkloads :: bool
  enableDefenseInDepth :: bool
  bpfExclusiveMode :: bool
  GenerateArmorProfileName :: "string \<Rightarrow> string \<Rightarrow> bool \<Rightarrow> string"
  ProfileNameTemplate :: string
  NewArmorProfile :: "varmorPolicy \<Rightarrow> bool \<Rightarrow> string + armorProfile"
  GenerateProfile :: "policy \<Rightarrow> string \<Rightarrow> bool \<Rightarrow> string \<Rightarrow> string + profile"

text \<open>
  Every request the controller sends out is recorded, in order: calls of the resource
  store, messages on the status manager's channels, and the detached
  \<open>UpdateWorkloadAnnotationsAndEnv\<close> tasks.
\<close>

datatype call =
    PolicyUpdateStatus string varmorPolicy
  | ClusterPolicyUpdateStatus varmorPolicy
  | ModelGet string string
  | ModelUpdateStatus string armorProfileModel
  | ProfileCreate string armorProfile
  | ProfileUpdateStatus string armorProfile
  | ProfileUpdate string armorProfile
  | SendResetCh string
  | SendUpdateStatusCh string
  | UpdateWorkloadAnnotationsAndEnv string string target string string bool

text \<open>
  Modelled from the spec: the resource store, the status manager and the clock are
  collaborators outside the sources. \<open>faults\<close> scripts the resource store: each store
  call takes the next entry, \<open>Some e\<close> making the call fail with \<open>e\<close>; with no entry left
  the call succeeds. A successful write returns the object that was sent.
  \<open>models\<close> is what \<open>ArmorProfileModels(ns).Get\<close> finds. \<open>now\<close> is the value of
  \<open>metav1.Now()\<close>. \<open>UpdateDesiredNumber\<close> is the status manager's flag.
\<close>

record world =
  now :: nat
  faults :: "error option list"
  models :: "string \<times> string \<Rightarrow> armorProfileModel option"
  calls :: "call list"
  UpdateDesiredNumber :: bool

definition nextAnswer :: "world \<Rightarrow> error option" where
  "nextAnswer w = (case faults w of [] \<Rightarrow> None | f # fs \<Rightarrow> f)"

definition storeCall :: "call \<Rightarrow> world \<Rightarrow> error option \<times> world" where
  "storeCall k w = (nextAnswer w, w\<lparr>faults := tl (faults w), calls := calls w @ [k]\<rparr>)"

definition send :: "call \<Rightarrow> world \<Rightarrow> world" where
  "send k w = w\<lparr>calls := calls w @ [k]\<rparr>"

section \<open>Status reporter\<close>

text \<open>The loop of \<open>updateVarmorPolicyStatus\<close>: the first condition of type \<open>Updated\<close> is
  overwritten in place; the flag says whether one was found.\<close>

fun updateExisting ::
  "string \<Rightarrow> nat \<Rightarrow> string \<Rightarrow> string \<Rightarrow> varmorPolicyCondition list
     \<Rightarrow> varmorPolicyCondition list \<times> bool" where
  "updateExisting status t reason message [] = ([], False)"
| "updateExisting status t reason message (c # cs) =
     (if Cond_Type c = VarmorPolicyUpdated
      then (c\<lparr>Cond_Status := status, Cond_LastTransitionTime := t,
               Cond_Reason := reason, Cond_Message := message\<rparr> # cs, True)
      else (case updateExisting status t reason message cs of
              (cs', exist) \<Rightarrow> (c # cs', exist)))"

text \<open>The part of \<open>updateVarmorPolicyStatus\<close> (and of its cluster twin, which has the
  same text) that changes the policy object in memory.\<close>

definition setPolicyStatus ::
  "nat \<Rightarrow> varmorPolicy \<Rightarrow> string \<Rightarrow> bool \<Rightarrow> string \<Rightarrow> string \<Rightarrow> string \<Rightarrow> string \<Rightarrow> string
     \<Rightarrow> varmorPolicy" where
  "setPolicyStatus t vp profileName resetReady phase condType status reason message =
     (let found = (if condType = VarmorPolicyUpdated
                   then updateExisting status t reason message (Status_Conditions (VP_Status vp))
                   else (Status_Conditions (VP_Status vp), False));
          conds = (if \<not> snd found
                   then fst found @ [\<lparr>Cond_Type = condType, Cond_Status = status,
                                      Cond_LastTransitionTime = t, Cond_Reason = reason,
                                      Cond_Message = message\<rparr>]
                   else fst found);
          s1 = (VP_Status vp)\<lparr>Status_Conditions := conds\<rparr>;
          s2 = (if profileName \<noteq> [] then s1\<lparr>Status_ProfileName := profileName\<rparr> else s1);
          s3 = (if resetReady then s2\<lparr>Status_Ready := False\<rparr> else s2);
          s4 = (if phase \<noteq> VarmorPolicyUnchanged then s3\<lparr>Status_Phase := phase\<rparr> else s3)
      in vp\<lparr>VP_Status := s4\<rparr>)"

definition updateVarmorPolicyStatus ::
  "varmorPolicy \<Rightarrow> string \<Rightarrow> bool \<Rightarrow> string \<Rightarrow> string \<Rightarrow> string \<Rightarrow> string \<Rightarrow> string \<Rightarrow> world
     \<Rightarrow> error option \<times> varmorPolicy \<times> world" where
  "updateVarmorPolicyStatus vp profileName resetReady phase condType status reason message w =
     (let vp' = setPolicyStatus (now w) vp profileName resetReady phase condType status reason message;
          r = storeCall (PolicyUpdateStatus (VP_Namespace vp') vp') w
      in (fst r, vp', snd r))"

definition updateVarmorClusterPolicyStatus ::
  "varmorPolicy \<Rightarrow> string \<Rightarrow> bool \<Rightarrow> string \<Rightarrow> string \<Rightarrow> string \<Rightarrow> string \<Rightarrow> string \<Rightarrow> world
     \<Rightarrow> error option \<times> varmorPolicy \<times> world" where
  "updateVarmorClusterPolicyStatus vcp profileName resetReady phase condType status reason message w =
     (let vcp' = setPolicyStatus (now w) vcp profileName resetReady phase condType status reason message;
          r = storeCall (ClusterPolicyUpdateStatus vcp') w
      in (fst r, vcp', snd r))"

text \<open>\<open>resetArmorProfileModelStatus\<close>: a failed or empty \<open>Get\<close> is not an error.\<close>

definition resetArmorProfileModelStatus :: "string \<Rightarrow> string \<Rightarrow> world \<Rightarrow> error option \<times> world" where
  "resetArmorProfileModelStatus namespace name w =
     (let r = storeCall (ModelGet namespace name) w
      in case fst r of
           Some e \<Rightarrow> (None, snd r)
         | None \<Rightarrow>
            (case models w (namespace, name) of
               None \<Rightarrow> (None, snd r)
             | Some apm \<Rightarrow>
                 storeCall (ModelUpdateStatus namespace
                   (apm\<lparr>APM_Status := (APM_Status apm)\<lparr>APMStatus_CompletedNumber := 0,
                        APMStatus_Conditions := [], APMStatus_Ready := False\<rparr>\<rparr>)) (snd r)))"

section \<open>Validation gate\<close>

text \<open>\<open>fmt.Sprintf("%d", n)\<close>.\<close>

fun showNat :: "nat \<Rightarrow> string" where
  "showNat n = (if n < 10 then [char_of (48 + n)]
                else showNat (n div 10) @ [char_of (48 + n mod 10)])"

definition showInt :: "int \<Rightarrow> string" where
  "showInt i = (if i < 0 then CHR ''-'' # showNat (nat (- i)) else showNat (nat i))"

text \<open>\<open>PolicyController.ignoreAdd\<close>. The result of the status write is only logged.\<close>

definition ignoreAdd :: "controller \<Rightarrow> varmorPolicy \<Rightarrow> world \<Rightarrow> bool \<times> varmorPolicy \<times> world" where
  "ignoreAdd c vp w =
     (let tg = Spec_Target (VP_Spec vp);
          profileName = GenerateArmorProfileName c (VP_Namespace vp) (VP_Name vp) False
      in
      if Target_Kind tg \<noteq> ''Deployment'' \<and> Target_Kind tg \<noteq> ''StatefulSet'' \<and>
         Target_Kind tg \<noteq> ''DaemonSet'' \<and> Target_Kind tg \<noteq> ''Pod''
      then (True, snd (updateVarmorPolicyStatus vp [] True VarmorPolicyError VarmorPolicyCreated
              ConditionFalse ''Forbidden'' ''This kind of target is not supported.'' w))
      else if Target_Name tg = [] \<and> Target_Selector tg = None
      then (True, snd (updateVarmorPolicyStatus vp [] True VarmorPolicyError VarmorPolicyCreated
              ConditionFalse ''Forbidden''
              ''You should specify the target workload by name or selector.'' w))
      else if Target_Name tg \<noteq> [] \<and> Target_Selector tg \<noteq> None
      then (True, snd (updateVarmorPolicyStatus vp [] True VarmorPolicyError VarmorPolicyCreated
              ConditionFalse ''Forbidden''
              ''You shouldn't specify the target workload by both both name and selector.'' w))
      else if \<not> enableDefenseInDepth c \<and> Policy_Mode (Spec_Policy (VP_Spec vp)) = DefenseInDepthMode
      then (True, snd (updateVarmorPolicyStatus vp [] True VarmorPolicyError VarmorPolicyCreated
              ConditionFalse ''Forbidden'' ''The DefenseInDepth feature is not enabled.'' w))
      else if length profileName > 63
      then (True, snd (updateVarmorPolicyStatus vp [] True VarmorPolicyError VarmorPolicyCreated
              ConditionFalse ''Forbidden''
              (''The length of VarmorProfile object name is too long, please limit it to '' @
               showInt (63 - int (length (ProfileNameTemplate c)) + 4 - int (length (VP_Namespace vp))) @
               '' bytes'') w))
      else (False, vp, w))"

text \<open>\<open>ClusterPolicyController.ignoreAdd\<close>.\<close>

definition cluster_ignoreAdd :: "controller \<Rightarrow> varmorPolicy \<Rightarrow> world \<Rightarrow> bool \<times> varmorPolicy \<times> world" where
  "cluster_ignoreAdd c vcp w =
     (let tg = Spec_Target (VP_Spec vcp);
          profileName = GenerateArmorProfileName c [] (VP_Name vcp) True
      in
      if Target_Kind tg \<noteq> ''Deployment'' \<and> Target_Kind tg \<noteq> ''StatefulSet'' \<and>
         Target_Kind tg \<noteq> ''DaemonSet'' \<and> Target_Kind tg \<noteq> ''Pod''
      then (True, snd (updateVarmorClusterPolicyStatus vcp [] True VarmorPolicyError VarmorPolicyCreated
              ConditionFalse ''Forbidden'' ''This kind of target is not supported.'' w))
      else if Target_Name tg = [] \<and> Target_Selector tg = None
      then (True, snd (updateVarmorClusterPolicyStatus vcp [] True VarmorPolicyError VarmorPolicyCreated
              ConditionFalse ''Forbidden''
              ''You should specify the target workload by name or selector.'' w))
      else if Target_Name tg \<noteq> [] \<and> Target_Selector tg \<noteq> None
      then (True, snd (updateVarmorClusterPolicyStatus vcp [] True VarmorPolicyError VarmorPolicyCreated
              ConditionFalse ''Forbidden''
              ''You shouldn't specify the target workload by both name and selector.'' w))
      else if Policy_Mode (Spec_Policy (VP_Spec vcp)) = DefenseInDepthMode
      then (True, snd (updateVarmorClusterPolicyStatus vcp [] True VarmorPolicyError VarmorPolicyCreated
              ConditionFalse ''Forbidden''
              ''The DefenseInDepth feature is not supported for the VarmorClusterPolicy controller.'' w))
      else if length profileName > 63
      then (True, snd (updateVarmorClusterPolicyStatus vcp [] True VarmorPolicyError VarmorPolicyCreated
              ConditionFalse ''Forbidden''
              (''The length of VarmorClusterPolicy object name is too long, please limit it to '' @
               showInt (63 - int (length (ProfileNameTemplate c)) + 4 - int (length (VP_Namespace vcp))) @
               '' bytes'') w))
      else (False, vcp, w))"

text \<open>\<open>PolicyController.ignoreUpdate\<close>: the pair \<open>(bool, error)\<close> of the source, the
  policy object as the call leaves it, and the world.\<close>

definition ignoreUpdate ::
  "varmorPolicy \<Rightarrow> armorProfile \<Rightarrow> world \<Rightarrow> bool \<times> error option \<times> varmorPolicy \<times> world" where
  "ignoreUpdate newVp oldAp w =
     (let pol = Spec_Policy (VP_Spec newVp);
          recorded = BM_ModelingDuration (APSpec_BehaviorModeling (AP_Spec oldAp))
      in
      if Spec_Target (VP_Spec newVp) \<noteq> APSpec_Target (AP_Spec oldAp)
      then (True, updateVarmorPolicyStatus newVp [] True VarmorPolicyUnchanged VarmorPolicyUpdated
              ConditionFalse ''Forbidden''
              ''Modify the target of VarmorPolicy is not allowed. You need to recreate the VarmorPolicy object.'' w)
      else if Policy_Mode pol = DefenseInDepthMode \<and> recorded = 0
      then (True, updateVarmorPolicyStatus newVp [] True VarmorPolicyUnchanged VarmorPolicyUpdated
              ConditionFalse ''Forbidden''
              ''Switch the mode from others to DefenseInDepth is not allowed. You need to recreate the VarmorPolicy object.'' w)
      else if Policy_Mode pol \<noteq> DefenseInDepthMode \<and> recorded \<noteq> 0
      then (True, updateVarmorPolicyStatus newVp [] True VarmorPolicyUnchanged VarmorPolicyUpdated
              ConditionFalse ''Forbidden''
              ''Switch the mode from DefenseInDepth to others is not allowed. You need to recreate the VarmorPolicy object.'' w)
      else if Policy_Mode pol = DefenseInDepthMode \<and>
              (Status_Phase (VP_Status newVp) = VarmorPolicyCompleted \<or>
               Status_Phase (VP_Status newVp) = VarmorPolicyProtecting)
      then (True, updateVarmorPolicyStatus newVp [] False VarmorPolicyUnchanged VarmorPolicyUpdated
              ConditionFalse ''Forbidden''
              ''Modify the VarmorPolicy that run as DefenseInDepth mode and already completed is not allowed. You need to recreate the VarmorPolicy object.'' w)
      else if Policy_Mode pol = DefenseInDepthMode \<and>
              Status_Phase (VP_Status newVp) = VarmorPolicyModeling \<and>
              Policy_DefenseInDepth_ModelingDuration pol = recorded
      then (True, None, newVp, w)
      else if Policy_Enforcer pol \<noteq> Profile_Enforcer (APSpec_Profile (AP_Spec oldAp))
      then (True, updateVarmorPolicyStatus newVp [] True VarmorPolicyUnchanged VarmorPolicyUpdated
              ConditionFalse ''Forbidden''
              ''Switch the enforcer is not allowed. You need to recreate the VarmorPolicy object.'' w)
      else (False, None, newVp, w))"

text \<open>\<open>ClusterPolicyController.ignoreUpdate\<close>.\<close>

definition cluster_ignoreUpdate ::
  "varmorPolicy \<Rightarrow> armorProfile \<Rightarrow> world \<Rightarrow> bool \<times> error option \<times> varmorPolicy \<times> world" where
  "cluster_ignoreUpdate newVp oldAp w =
     (let pol = Spec_Policy (VP_Spec newVp);
          recorded = BM_ModelingDuration (APSpec_BehaviorModeling (AP_Spec oldAp))
      in
      if Spec_Target (VP_Spec newVp) \<noteq> APSpec_Target (AP_Spec oldAp)
      then (True, updateVarmorClusterPolicyStatus newVp [] True VarmorPolicyUnchanged VarmorPolicyUpdated
              ConditionFalse ''Forbidden''
              ''Modify the target of VarmorClusterPolicy is not allowed. You need to recreate the VarmorClusterPolicy object.'' w)
      else if Policy_Mode pol = DefenseInDepthMode \<and> recorded = 0
      then (True, updateVarmorClusterPolicyStatus newVp [] True VarmorPolicyUnchanged VarmorPolicyUpdated
              ConditionFalse ''Forbidden''
              ''Switch the mode from others to DefenseInDepth is not allowed. You need to recreate the VarmorClusterPolicy object.'' w)
      else if Policy_Mode pol \<noteq> DefenseInDepthMode \<and> recorded \<noteq> 0
      then (True, updateVarmorClusterPolicyStatus newVp [] True VarmorPolicyUnchanged VarmorPolicyUpdated
              ConditionFalse ''Forbidden''
              ''Switch the mode from DefenseInDepth to others is not allowed. You need to recreate the VarmorClusterPolicy object.'' w)
      else if Policy_Mode pol = DefenseInDepthMode \<and>
              (Status_Phase (VP_Status newVp) = VarmorPolicyCompleted \<or>
               Status_Phase (VP_Status newVp) = VarmorPolicyProtecting)
      then (True, updateVarmorClusterPolicyStatus newVp [] False VarmorPolicyUnchanged VarmorPolicyUpdated
              ConditionFalse ''Forbidden''
              ''Modify the VarmorClusterPolicy that run as DefenseInDepth mode and already completed is not allowed. You need to recreate the VarmorClusterPolicy object.'' w)
      else if Policy_Mode pol = DefenseInDepthMode \<and>
              Status_Phase (VP_Status newVp) = VarmorPolicyModeling \<and>
              Policy_DefenseInDepth_ModelingDuration pol = recorded
      then (True, None, newVp, w)
      else if Policy_Enforcer pol \<noteq> Profile_Enforcer (APSpec_Profile (AP_Spec oldAp))
      then (True, updateVarmorClusterPolicyStatus newVp [] True VarmorPolicyUnchanged VarmorPolicyUpdated
              ConditionFalse ''Forbidden''
              ''Switch the enforcer is not allowed. You need to recreate the VarmorClusterPolicy object.'' w)
      else (False, None, newVp, w))"

section \<open>Profile synchronizer\<close>

text \<open>\<open>PolicyController.handleAddVarmorPolicy\<close>: the returned error, the policy object
  as the call leaves it, and the world.\<close>

definition handleAddVarmorPolicy ::
  "controller \<Rightarrow> varmorPolicy \<Rightarrow> world \<Rightarrow> error option \<times> varmorPolicy \<times> world" where
  "handleAddVarmorPolicy c vp w =
     (case ignoreAdd c vp w of
        (True, vp1, w1) \<Rightarrow> (None, vp1, w1)
      | (False, vp1, w1) \<Rightarrow>
         (case NewArmorProfile c vp1 False of
            Inl msg \<Rightarrow>
              updateVarmorPolicyStatus vp1 [] True VarmorPolicyError VarmorPolicyCreated
                ConditionFalse ''Error'' msg w1
          | Inr ap \<Rightarrow>
             (case updateVarmorPolicyStatus vp1 (Profile_Name (APSpec_Profile (AP_Spec ap))) True
                     VarmorPolicyPending VarmorPolicyCreated ConditionTrue [] [] w1 of
                (Some e, vp2, w2) \<Rightarrow> (Some e, vp2, w2)
              | (None, vp2, w2) \<Rightarrow>
                 (let w3 = (if Policy_Mode (Spec_Policy (VP_Spec vp2)) = DefenseInDepthMode
                            then snd (resetArmorProfileModelStatus (AP_Namespace ap) (AP_Name ap) w2)
                            else w2);
                      w4 = w3\<lparr>UpdateDesiredNumber := True\<rparr>;
                      r = storeCall (ProfileCreate (VP_Namespace vp2) ap) w4
                  in case fst r of
                       Some e \<Rightarrow> (Some e, vp2, snd r)
                     | None \<Rightarrow>
                        (None, vp2,
                         if restartExistWorkloads c
                         then send (UpdateWorkloadAnnotationsAndEnv (VP_Namespace vp2)
                                      (Policy_Enforcer (Spec_Policy (VP_Spec vp2)))
                                      (Spec_Target (VP_Spec vp2)) (AP_Name ap)
                                      (BM_UniqueID (APSpec_BehaviorModeling (AP_Spec ap)))
                                      (bpfExclusiveMode c)) (snd r)
                         else snd r)))))"

text \<open>\<open>ClusterPolicyController.handleAddVarmorClusterPolicy\<close>; \<open>metav1.NamespaceAll\<close>
  is the empty string.\<close>

definition handleAddVarmorClusterPolicy ::
  "controller \<Rightarrow> varmorPolicy \<Rightarrow> world \<Rightarrow> error option \<times> varmorPolicy \<times> world" where
  "handleAddVarmorClusterPolicy c vcp w =
     (case cluster_ignoreAdd c vcp w of
        (True, vp1, w1) \<Rightarrow> (None, vp1, w1)
      | (False, vp1, w1) \<Rightarrow>
         (case NewArmorProfile c vp1 True of
            Inl msg \<Rightarrow>
              updateVarmorClusterPolicyStatus vp1 [] True VarmorPolicyError VarmorPolicyCreated
                ConditionFalse ''Error'' msg w1
          | Inr ap \<Rightarrow>
             (case updateVarmorClusterPolicyStatus vp1 (Profile_Name (APSpec_Profile (AP_Spec ap))) True
                     VarmorPolicyPending VarmorPolicyCreated ConditionTrue [] [] w1 of
                (Some e, vp2, w2) \<Rightarrow> (Some e, vp2, w2)
              | (None, vp2, w2) \<Rightarrow>
                 (let w4 = w2\<lparr>UpdateDesiredNumber := True\<rparr>;
                      r = storeCall (ProfileCreate (varmorconfig_Namespace c) ap) w4
                  in case fst r of
                       Some e \<Rightarrow> (Some e, vp2, snd r)
                     | None \<Rightarrow>
                        (None, vp2,
                         if restartExistWorkloads c
                         then send (UpdateWorkloadAnnotationsAndEnv []
                                      (Policy_Enforcer (Spec_Policy (VP_Spec vp2)))
                                      (Spec_Target (VP_Spec vp2)) (AP_Name ap)
                                      (BM_UniqueID (APSpec_BehaviorModeling (AP_Spec ap)))
                                      (bpfExclusiveMode c)) (snd r)
                         else snd r)))))"

text \<open>The profile spec that \<open>handleUpdateVarmorPolicy\<close> builds from the old one and the
  regenerated profile.\<close>

definition newApSpecOf :: "varmorPolicy \<Rightarrow> armorProfile \<Rightarrow> profile \<Rightarrow> armorProfileSpec" where
  "newApSpecOf newVp oldAp newProfile =
     (let s = (AP_Spec oldAp)\<lparr>APSpec_Profile := newProfile\<rparr>
      in if Policy_Mode (Spec_Policy (VP_Spec newVp)) = DefenseInDepthMode
         then s\<lparr>APSpec_BehaviorModeling := (APSpec_BehaviorModeling s)
                 \<lparr>BM_ModelingDuration :=
                    Policy_DefenseInDepth_ModelingDuration (Spec_Policy (VP_Spec newVp))\<rparr>\<rparr>
         else s)"

text \<open>\<open>PolicyController.handleUpdateVarmorPolicy\<close>.\<close>

definition handleUpdateVarmorPolicy ::
  "controller \<Rightarrow> varmorPolicy \<Rightarrow> armorProfile \<Rightarrow> world \<Rightarrow> error option \<times> varmorPolicy \<times> world" where
  "handleUpdateVarmorPolicy c newVp oldAp w =
     (case ignoreUpdate newVp oldAp w of
        (True, err, vp1, w1) \<Rightarrow> (err, vp1, w1)
      | (False, err, vp1, w1) \<Rightarrow>
         (case updateVarmorPolicyStatus vp1 [] True VarmorPolicyPending VarmorPolicyUpdated
                 ConditionTrue [] [] w1 of
            (Some e, vp2, w2) \<Rightarrow> (Some e, vp2, w2)
          | (None, vp2, w2) \<Rightarrow>
             (case GenerateProfile c (Spec_Policy (VP_Spec vp2))
                     (Profile_Name (APSpec_Profile (AP_Spec oldAp))) False [] of
                Inl msg \<Rightarrow>
                  updateVarmorPolicyStatus vp2 [] True VarmorPolicyError VarmorPolicyCreated
                    ConditionFalse ''Error'' msg w2
              | Inr newProfile \<Rightarrow>
                 (let newApSpec = newApSpecOf vp2 oldAp newProfile;
                      statusKey = VP_Namespace vp2 @ ''/'' @ VP_Name vp2;
                      w3 = w2\<lparr>UpdateDesiredNumber := True\<rparr>
                  in if AP_Spec oldAp \<noteq> newApSpec
                     then
                       (let oldAp1 = oldAp\<lparr>AP_Status := (AP_Status oldAp)
                                       \<lparr>APStatus_CurrentNumberLoaded := 0, APStatus_Conditions := []\<rparr>\<rparr>;
                            r = storeCall (ProfileUpdateStatus (VP_Namespace vp2) oldAp1) w3
                        in case fst r of
                             Some e \<Rightarrow> (Some e, vp2, snd r)
                           | None \<Rightarrow>
                              (let w5 = (if Policy_Mode (Spec_Policy (VP_Spec vp2)) = DefenseInDepthMode
                                         then snd (resetArmorProfileModelStatus (VP_Namespace vp2)
                                                     (AP_Name oldAp1) (snd r))
                                         else snd r);
                                   w6 = send (SendResetCh statusKey) w5;
                                   r' = storeCall (ProfileUpdate (VP_Namespace vp2)
                                                     (oldAp1\<lparr>AP_Spec := newApSpec\<rparr>)) w6
                               in (fst r', vp2, snd r')))
                     else (None, vp2, send (SendUpdateStatusCh statusKey) w3)))))"

text \<open>\<open>ClusterPolicyController.handleUpdateVarmorClusterPolicy\<close>.\<close>

definition handleUpdateVarmorClusterPolicy ::
  "controller \<Rightarrow> varmorPolicy \<Rightarrow> armorProfile \<Rightarrow> world \<Rightarrow> error option \<times> varmorPolicy \<times> world" where
  "handleUpdateVarmorClusterPolicy c newVp oldAp w =
     (case cluster_ignoreUpdate newVp oldAp w of
        (True, err, vp1, w1) \<Rightarrow> (err, vp1, w1)
      | (False, err, vp1, w1) \<Rightarrow>
         (case updateVarmorClusterPolicyStatus vp1 [] True VarmorPolicyPending VarmorPolicyUpdated
                 ConditionTrue [] [] w1 of
            (Some e, vp2, w2) \<Rightarrow> (Some e, vp2, w2)
          | (None, vp2, w2) \<Rightarrow>
             (case GenerateProfile c (Spec_Policy (VP_Spec vp2))
                     (Profile_Name (APSpec_Profile (AP_Spec oldAp))) False [] of
                Inl msg \<Rightarrow>
                  updateVarmorClusterPolicyStatus vp2 [] True VarmorPolicyError VarmorPolicyCreated
                    ConditionFalse ''Error'' msg w2
              | Inr newProfile \<Rightarrow>
                 (let newApSpec = (AP_Spec oldAp)\<lparr>APSpec_Profile := newProfile\<rparr>;
                      statusKey = VP_Name vp2;
                      w3 = w2\<lparr>UpdateDesiredNumber := True\<rparr>
                  in if AP_Spec oldAp \<noteq> newApSpec
                     then
                       (let oldAp1 = oldAp\<lparr>AP_Status := (AP_Status oldAp)
                                       \<lparr>APStatus_CurrentNumberLoaded := 0, APStatus_Conditions := []\<rparr>\<rparr>;
                            r = storeCall (ProfileUpdateStatus (AP_Namespace oldAp1) oldAp1) w3
                        in case fst r of
                             Some e \<Rightarrow> (Some e, vp2, snd r)
                           | None \<Rightarrow>
                              (let w6 = send (SendResetCh statusKey) (snd r);
                                   r' = storeCall (ProfileUpdate (AP_Namespace oldAp1)
                                                     (oldAp1\<lparr>AP_Spec := newApSpec\<rparr>)) w6
                               in (fst r', vp2, snd r')))
                     else (None, vp2, send (SendUpdateStatusCh statusKey) w3)))))"

section \<open>Event router and worker loop\<close>

text \<open>
  Modelled from the spec: the work queue is client-go's rate-limiting queue, which is
  not among the sources. The controller sees of it the calls it makes, recorded in \<open>ops\<close>, and
  \<open>NumRequeues\<close>, the count of rate-limited re-adds of a key since it was last
  forgotten: \<open>AddRateLimited\<close> raises it by one, \<open>Forget\<close> resets it.
  \<open>HandleError\<close> is the call of \<open>utilruntime.HandleError\<close>.
\<close>

datatype qop = Add string | AddRateLimited string | Forget string | HandleError error

record queue =
  requeues :: "string \<Rightarrow> nat"
  ops :: "qop list"

definition queue_Add :: "string \<Rightarrow> queue \<Rightarrow> queue" where
  "queue_Add key q = q\<lparr>ops := ops q @ [Add key]\<rparr>"

definition queue_NumRequeues :: "queue \<Rightarrow> string \<Rightarrow> nat" where
  "queue_NumRequeues q key = requeues q key"

definition queue_AddRateLimited :: "string \<Rightarrow> queue \<Rightarrow> queue" where
  "queue_AddRateLimited key q =
     q\<lparr>requeues := (requeues q)(key := Suc (requeues q key)), ops := ops q @ [AddRateLimited key]\<rparr>"

definition queue_Forget :: "string \<Rightarrow> queue \<Rightarrow> queue" where
  "queue_Forget key q = q\<lparr>requeues := (requeues q)(key := 0), ops := ops q @ [Forget key]\<rparr>"

definition utilruntime_HandleError :: "error \<Rightarrow> queue \<Rightarrow> queue" where
  "utilruntime_HandleError e q = q\<lparr>ops := ops q @ [HandleError e]\<rparr>"

text \<open>\<open>cache.MetaNamespaceKeyFunc\<close> on a policy object: it does not fail there.\<close>

definition MetaNamespaceKeyFunc :: "varmorPolicy \<Rightarrow> string" where
  "MetaNamespaceKeyFunc vp =
     (if VP_Namespace vp \<noteq> [] then VP_Namespace vp @ ''/'' @ VP_Name vp else VP_Name vp)"

definition enqueuePolicy :: "varmorPolicy \<Rightarrow> queue \<Rightarrow> queue" where
  "enqueuePolicy vp q = queue_Add (MetaNamespaceKeyFunc vp) q"

definition updateVarmorPolicy :: "varmorPolicy \<Rightarrow> varmorPolicy \<Rightarrow> queue \<Rightarrow> queue" where
  "updateVarmorPolicy oldVp newVp q =
     (if VP_ResourceVersion newVp = VP_ResourceVersion oldVp \<or>
         VP_Spec newVp = VP_Spec oldVp \<or>
         VP_Status newVp \<noteq> VP_Status oldVp
      then q
      else enqueuePolicy newVp q)"

definition enqueueClusterPolicy :: "varmorPolicy \<Rightarrow> queue \<Rightarrow> queue" where
  "enqueueClusterPolicy vcp q = queue_Add (MetaNamespaceKeyFunc vcp) q"

definition updateVarmorClusterPolicy :: "varmorPolicy \<Rightarrow> varmorPolicy \<Rightarrow> queue \<Rightarrow> queue" where
  "updateVarmorClusterPolicy oldVcp newVcp q =
     (if VP_ResourceVersion newVcp = VP_ResourceVersion oldVcp \<or>
         VP_Spec newVcp = VP_Spec oldVcp \<or>
         VP_Status newVcp \<noteq> VP_Status oldVcp
      then q
      else enqueueClusterPolicy newVcp q)"

text \<open>\<open>handleErr\<close>, which has the same text in both controllers.\<close>

definition handleErr :: "error option \<Rightarrow> string \<Rightarrow> queue \<Rightarrow> queue" where
  "handleErr err key q =
     (case err of
        None \<Rightarrow> queue_Forget key q
      | Some e \<Rightarrow>
          if queue_NumRequeues q key < maxRetries
          then queue_AddRateLimited key q
          else queue_Forget key (utilruntime_HandleError e q))"

text \<open>The worker's treatment of one key whose sync function returns the errors \<open>es\<close>
  on consecutive deliveries.\<close>

fun failingSyncs :: "error list \<Rightarrow> string \<Rightarrow> queue \<Rightarrow> queue" where
  "failingSyncs [] key q = q"
| "failingSyncs (e # es) key q = failingSyncs es key (handleErr (Some e) key q)"

section \<open>The update gate as the specification words it\<close>

text \<open>
  The specification lists six checks of \<open>validateUpdate\<close>, evaluated in order, the first
  match deciding. \<open>validateUpdate_spec\<close> is that list, kept apart from \<open>ignoreUpdate\<close>,
  which is the source's chain of conditionals.
\<close>

datatype updateCheck =
  TargetChange | SwitchIntoModeling | SwitchOutOfModeling | CompletedLock | NoopDuration |
  EnforcerMismatch

fun checkMatches :: "updateCheck \<Rightarrow> varmorPolicy \<Rightarrow> armorProfile \<Rightarrow> bool" where
  "checkMatches TargetChange newVp oldAp =
     (Spec_Target (VP_Spec newVp) \<noteq> APSpec_Target (AP_Spec oldAp))"
| "checkMatches SwitchIntoModeling newVp oldAp =
     (Policy_Mode (Spec_Policy (VP_Spec newVp)) = DefenseInDepthMode \<and>
      BM_ModelingDuration (APSpec_BehaviorModeling (AP_Spec oldAp)) = 0)"
| "checkMatches SwitchOutOfModeling newVp oldAp =
     (Policy_Mode (Spec_Policy (VP_Spec newVp)) \<noteq> DefenseInDepthMode \<and>
      BM_ModelingDuration (APSpec_BehaviorModeling (AP_Spec oldAp)) \<noteq> 0)"
| "checkMatches CompletedLock newVp oldAp =
     (Policy_Mode (Spec_Policy (VP_Spec newVp)) = DefenseInDepthMode \<and>
      Status_Phase (VP_Status newVp) \<in> {VarmorPolicyCompleted, VarmorPolicyProtecting})"
| "checkMatches NoopDuration newVp oldAp =
     (Policy_Mode (Spec_Policy (VP_Spec newVp)) = DefenseInDepthMode \<and>
      Status_Phase (VP_Status newVp) = VarmorPolicyModeling \<and>
      Policy_DefenseInDepth_ModelingDuration (Spec_Policy (VP_Spec newVp)) =
        BM_ModelingDuration (APSpec_BehaviorModeling (AP_Spec oldAp)))"
| "checkMatches EnforcerMismatch newVp oldAp =
     (Policy_Enforcer (Spec_Policy (VP_Spec newVp)) \<noteq>
      Profile_Enforcer (APSpec_Profile (AP_Spec oldAp)))"

definition checkOrder :: "updateCheck list" where
  "checkOrder = [TargetChange, SwitchIntoModeling, SwitchOutOfModeling, CompletedLock,
                 NoopDuration, EnforcerMismatch]"

definition validateUpdate_spec :: "varmorPolicy \<Rightarrow> armorProfile \<Rightarrow> updateCheck option" where
  "validateUpdate_spec newVp oldAp = find (\<lambda>k. checkMatches k newVp oldAp) checkOrder"

fun forbiddenMessage :: "updateCheck \<Rightarrow> string" where
  "forbiddenMessage TargetChange =
     ''Modify the target of VarmorPolicy is not allowed. You need to recreate the VarmorPolicy object.''"
| "forbiddenMessage SwitchIntoModeling =
     ''Switch the mode from others to DefenseInDepth is not allowed. You need to recreate the VarmorPolicy object.''"
| "forbiddenMessage SwitchOutOfModeling =
     ''Switch the mode from DefenseInDepth to others is not allowed. You need to recreate the VarmorPolicy object.''"
| "forbiddenMessage CompletedLock =
     ''Modify the VarmorPolicy that run as DefenseInDepth mode and already completed is not allowed. You need to recreate the VarmorPolicy object.''"
| "forbiddenMessage NoopDuration = []"
| "forbiddenMessage EnforcerMismatch =
     ''Switch the enforcer is not allowed. You need to recreate the VarmorPolicy object.''"

text \<open>What the gate answers when \<open>k\<close> is the first check that matches: the silent skip
  for the unchanged duration, a \<open>Forbidden\<close> condition otherwise, and \<open>proceed\<close> when no
  check matches.\<close>

fun gateAnswer ::
  "updateCheck option \<Rightarrow> varmorPolicy \<Rightarrow> world \<Rightarrow> bool \<times> error option \<times> varmorPolicy \<times> world" where
  "gateAnswer None newVp w = (False, None, newVp, w)"
| "gateAnswer (Some NoopDuration) newVp w = (True, None, newVp, w)"
| "gateAnswer (Some k) newVp w =
     (True, updateVarmorPolicyStatus newVp [] (k \<noteq> CompletedLock) VarmorPolicyUnchanged
              VarmorPolicyUpdated ConditionFalse ''Forbidden'' (forbiddenMessage k) w)"

text \<open>The same for the cluster controller, whose messages name \<open>VarmorClusterPolicy\<close>.\<close>

fun cluster_forbiddenMessage :: "updateCheck \<Rightarrow> string" where
  "cluster_forbiddenMessage TargetChange =
     ''Modify the target of VarmorClusterPolicy is not allowed. You need to recreate the VarmorClusterPolicy object.''"
| "cluster_forbiddenMessage SwitchIntoModeling =
     ''Switch the mode from others to DefenseInDepth is not allowed. You need to recreate the VarmorClusterPolicy object.''"
| "cluster_forbiddenMessage SwitchOutOfModeling =
     ''Switch the mode from DefenseInDepth to others is not allowed. You need to recreate the VarmorClusterPolicy object.''"
| "cluster_forbiddenMessage CompletedLock =
     ''Modify the VarmorClusterPolicy that run as DefenseInDepth mode and already completed is not allowed. You need to recreate the VarmorClusterPolicy object.''"
| "cluster_forbiddenMessage NoopDuration = []"
| "cluster_forbiddenMessage EnforcerMismatch =
     ''Switch the enforcer is not allowed. You need to recreate the VarmorClusterPolicy object.''"

fun cluster_gateAnswer ::
  "updateCheck option \<Rightarrow> varmorPolicy \<Rightarrow> world \<Rightarrow> bool \<times> error option \<times> varmorPolicy \<times> world" where
  "cluster_gateAnswer None newVp w = (False, None, newVp, w)"
| "cluster_gateAnswer (Some NoopDuration) newVp w = (True, None, newVp, w)"
| "cluster_gateAnswer (Some k) newVp w =
     (True, updateVarmorClusterPolicyStatus newVp [] (k \<noteq> CompletedLock) VarmorPolicyUnchanged
              VarmorPolicyUpdated ConditionFalse ''Forbidden'' (cluster_forbiddenMessage k) w)"

section \<open>Example objects\<close>

definition ex_target :: target where
  "ex_target = \<lparr>Target_Kind = ''Deployment'', Target_Name = ''app'', Target_Containers = [],
                 Target_Selector = None\<rparr>"

definition ex_policy :: policy where
  "ex_policy = \<lparr>Policy_Enforcer = ''AppArmor'', Policy_Mode = ''EnhanceProtect'',
                 Policy_DefenseInDepth_ModelingDuration = 0, Policy_Rules = ''rules-v1''\<rparr>"

definition ex_created :: varmorPolicyCondition where
  "ex_created = \<lparr>Cond_Type = ''Created'', Cond_Status = ''True'', Cond_LastTransitionTime = 1,
                  Cond_Reason = [], Cond_Message = []\<rparr>"

definition ex_updated :: varmorPolicyCondition where
  "ex_updated = \<lparr>Cond_Type = ''Updated'', Cond_Status = ''True'', Cond_LastTransitionTime = 2,
                  Cond_Reason = [], Cond_Message = []\<rparr>"

definition ex_vp :: varmorPolicy where
  "ex_vp = \<lparr>VP_Namespace = ''demo'', VP_Name = ''app'', VP_ResourceVersion = ''41'',
             VP_Spec = \<lparr>Spec_Target = ex_target, Spec_Policy = ex_policy\<rparr>,
             VP_Status = \<lparr>Status_ProfileName = ''varmor-demo-app'',
                          Status_Conditions = [ex_created, ex_updated],
                          Status_Ready = True, Status_Phase = ''Protecting''\<rparr>\<rparr>"

definition ex_ap :: armorProfile where
  "ex_ap = \<lparr>AP_Namespace = ''demo'', AP_Name = ''varmor-demo-app'',
             AP_Spec = \<lparr>APSpec_Profile = \<lparr>Profile_Name = ''varmor-demo-app'',
                                           Profile_Enforcer = ''AppArmor'',
                                           Profile_Content = ''rules-v1''\<rparr>,
                        APSpec_Target = ex_target,
                        APSpec_BehaviorModeling = \<lparr>BM_ModelingDuration = 0, BM_UniqueID = []\<rparr>\<rparr>,
             AP_Status = \<lparr>APStatus_CurrentNumberLoaded = 3, APStatus_DesiredNumberLoaded = 3,
                          APStatus_Conditions = []\<rparr>\<rparr>"

text \<open>A policy in behavior-modeling mode, in phase \<open>Modeling\<close>, and its profile.\<close>

definition ex_vp_modeling :: varmorPolicy where
  "ex_vp_modeling =
     ex_vp\<lparr>VP_Spec := \<lparr>Spec_Target = ex_target,
                        Spec_Policy = ex_policy\<lparr>Policy_Mode := ''DefenseInDepth'',
                                        Policy_DefenseInDepth_ModelingDuration := 30\<rparr>\<rparr>,
           VP_Status := (VP_Status ex_vp)\<lparr>Status_Phase := ''Modeling''\<rparr>\<rparr>"

definition ex_ap_modeling :: armorProfile where
  "ex_ap_modeling =
     ex_ap\<lparr>AP_Spec := (AP_Spec ex_ap)\<lparr>APSpec_BehaviorModeling :=
                          \<lparr>BM_ModelingDuration = 30, BM_UniqueID = ''u1''\<rparr>\<rparr>\<rparr>"

definition ex_world :: world where
  "ex_world = \<lparr>now = 7, faults = [], models = (\<lambda>k. None), calls = [],
                UpdateDesiredNumber = False\<rparr>"

definition ex_controller :: controller where
  "ex_controller =
     \<lparr>varmorconfig_Namespace = ''varmor'', restartExistWorkloads = True,
      enableDefenseInDepth = False, bpfExclusiveMode = False,
      GenerateArmorProfileName = (\<lambda>ns name clusterScope. ''varmor-'' @ ns @ ''-'' @ name),
      ProfileNameTemplate = ''varmor-%s-%s'',
      NewArmorProfile = (\<lambda>vp clusterScope. Inl ''unsupported rule''),
      GenerateProfile = (\<lambda>p name complain addr.
         if Policy_Rules p = ''bad'' then Inl ''unknown rule''
         else Inr \<lparr>Profile_Name = name, Profile_Enforcer = Policy_Enforcer p,
                    Profile_Content = Policy_Rules p\<rparr>)\<rparr>"

definition ex_queue :: queue where
  "ex_queue = \<lparr>requeues = (\<lambda>k. 0), ops = []\<rparr>"

definition ex_vp_edited :: varmorPolicy where
  "ex_vp_edited =
     ex_vp\<lparr>VP_ResourceVersion := ''42'',
           VP_Spec := \<lparr>Spec_Target = ex_target,
                        Spec_Policy = ex_policy\<lparr>Policy_Rules := ''rules-v2''\<rparr>\<rparr>\<rparr>"

definition ex_vp_edited_both :: varmorPolicy where
  "ex_vp_edited_both = ex_vp_edited\<lparr>VP_Status := (VP_Status ex_vp)\<lparr>Status_Ready := False\<rparr>\<rparr>"

definition ex_six_errors :: "error list" where
  "ex_six_errors = [Failure ''e1'', Failure ''e2'', Failure ''e3'', Failure ''e4'', Failure ''e5'',
                    Failure ''e6'']"

definition ex_vp_moved :: varmorPolicy where
  "ex_vp_moved =
     ex_vp\<lparr>VP_Spec := \<lparr>Spec_Target = ex_target\<lparr>Target_Name := ''other''\<rparr>,
                        Spec_Policy = ex_policy\<rparr>\<rparr>"

definition ex_vp_modeling_moved :: varmorPolicy where
  "ex_vp_modeling_moved =
     ex_vp_modeling\<lparr>VP_Spec := \<lparr>Spec_Target = ex_target\<lparr>Target_Name := ''other''\<rparr>,
                                 Spec_Policy = Spec_Policy (VP_Spec ex_vp_modeling)\<rparr>\<rparr>"

definition ex_vp_modeling_bpf :: varmorPolicy where
  "ex_vp_modeling_bpf =
     ex_vp_modeling\<lparr>VP_Spec := \<lparr>Spec_Target = ex_target,
        Spec_Policy = (Spec_Policy (VP_Spec ex_vp_modeling))\<lparr>Policy_Enforcer := ''BPF''\<rparr>\<rparr>\<rparr>"

definition ex_vp_modeling_bpf_moved :: varmorPolicy where
  "ex_vp_modeling_bpf_moved =
     ex_vp_modeling\<lparr>VP_Spec := \<lparr>Spec_Target = ex_target\<lparr>Target_Name := ''other''\<rparr>,
        Spec_Policy = (Spec_Policy (VP_Spec ex_vp_modeling))\<lparr>Policy_Enforcer := ''BPF''\<rparr>\<rparr>\<rparr>"

definition ex_world_failing :: world where
  "ex_world_failing = ex_world\<lparr>faults := [Some (Failure ''conflict'')]\<rparr>"

definition ex_forbidden :: varmorPolicyCondition where
  "ex_forbidden = ex_updated\<lparr>Cond_Status := ''False'', Cond_LastTransitionTime := 7,
      Cond_Reason := ''Forbidden'',
      Cond_Message := ''Modify the target of VarmorPolicy is not allowed. You need to recreate the VarmorPolicy object.''\<rparr>"

text \<open>A behavior-modeling policy whose modeling is complete, edited afterwards.\<close>

definition ex_vp_completed :: varmorPolicy where
  "ex_vp_completed =
     ex_vp_modeling\<lparr>VP_Status := (VP_Status ex_vp)\<lparr>Status_Phase := ''Completed''\<rparr>\<rparr>"

definition ex_vp_job :: varmorPolicy where
  "ex_vp_job =
     ex_vp\<lparr>VP_Spec := \<lparr>Spec_Target = ex_target\<lparr>Target_Kind := ''Job''\<rparr>,
                        Spec_Policy = ex_policy\<rparr>,
           VP_Status := \<lparr>Status_ProfileName = [], Status_Conditions = [], Status_Ready = False,
                          Status_Phase = []\<rparr>\<rparr>"

text \<open>A policy whose labels alone were edited: the spec is the one the profile was
  built from.\<close>

definition ex_vp_relabelled :: varmorPolicy where
  "ex_vp_relabelled = ex_vp\<lparr>VP_ResourceVersion := ''42''\<rparr>"

text \<open>A policy edited to a rule set that the generator refuses, and a store that fails
  on the second call.\<close>

definition ex_vp_bad :: varmorPolicy where
  "ex_vp_bad =
     ex_vp\<lparr>VP_ResourceVersion := ''42'',
           VP_Spec := \<lparr>Spec_Target = ex_target,
                        Spec_Policy = ex_policy\<lparr>Policy_Rules := ''bad''\<rparr>\<rparr>\<rparr>"

definition ex_world_failing_second :: world where
  "ex_world_failing_second = ex_world\<lparr>faults := [None, Some (Failure ''conflict'')]\<rparr>"

definition ex_generation_error :: varmorPolicyCondition where
  "ex_generation_error =
     \<lparr>Cond_Type = ''Created'', Cond_Status = ''False'', Cond_LastTransitionTime = 7,
      Cond_Reason = ''Error'', Cond_Message = ''unknown rule''\<rparr>"

section \<open>Facts about the building blocks\<close>

lemmas type_consts =
  VarmorPolicyCreated_def VarmorPolicyUpdated_def VarmorPolicyPending_def
  VarmorPolicyModeling_def VarmorPolicyCompleted_def VarmorPolicyProtecting_def
  VarmorPolicyError_def VarmorPolicyUnchanged_def DefenseInDepthMode_def
  ConditionTrue_def ConditionFalse_def

lemma updateExisting_found:
  "snd (updateExisting st t rs msg cs) = (VarmorPolicyUpdated \<in> Cond_Type ` set cs)"
  by (induction cs) (auto split: prod.splits)

lemma updateExisting_split:
  assumes "VarmorPolicyUpdated \<in> Cond_Type ` set cs"
  shows "\<exists>pre c post. cs = pre @ c # post \<and> VarmorPolicyUpdated \<notin> Cond_Type ` set pre \<and>
           Cond_Type c = VarmorPolicyUpdated \<and>
           fst (updateExisting st t rs msg cs) =
             pre @ c\<lparr>Cond_Status := st, Cond_LastTransitionTime := t,
                      Cond_Reason := rs, Cond_Message := msg\<rparr> # post"
  using assms
proof (induction cs)
  case Nil
  then show ?case by simp
next
  case (Cons a cs)
  show ?case
  proof (cases "Cond_Type a = VarmorPolicyUpdated")
    case True
    then have "a # cs = [] @ a # cs \<and> VarmorPolicyUpdated \<notin> Cond_Type ` set [] \<and>
           Cond_Type a = VarmorPolicyUpdated \<and>
           fst (updateExisting st t rs msg (a # cs)) =
             [] @ a\<lparr>Cond_Status := st, Cond_LastTransitionTime := t,
                      Cond_Reason := rs, Cond_Message := msg\<rparr> # cs" by simp
    then show ?thesis by blast
  next
    case False
    with Cons.prems have "VarmorPolicyUpdated \<in> Cond_Type ` set cs" by auto
    from Cons.IH[OF this] obtain pre c post where
      h: "cs = pre @ c # post" "VarmorPolicyUpdated \<notin> Cond_Type ` set pre"
         "Cond_Type c = VarmorPolicyUpdated"
         "fst (updateExisting st t rs msg cs) =
             pre @ c\<lparr>Cond_Status := st, Cond_LastTransitionTime := t,
                      Cond_Reason := rs, Cond_Message := msg\<rparr> # post" by blast
    from h False have "a # cs = (a # pre) @ c # post \<and> VarmorPolicyUpdated \<notin> Cond_Type ` set (a # pre) \<and>
           Cond_Type c = VarmorPolicyUpdated \<and>
           fst (updateExisting st t rs msg (a # cs)) =
             (a # pre) @ c\<lparr>Cond_Status := st, Cond_LastTransitionTime := t,
                      Cond_Reason := rs, Cond_Message := msg\<rparr> # post"
      by (auto split: prod.splits)
    then show ?thesis by blast
  qed
qed

lemma updateExisting_absent:
  "VarmorPolicyUpdated \<notin> Cond_Type ` set cs \<Longrightarrow> fst (updateExisting st t rs msg cs) = cs"
  by (induction cs) (auto split: prod.splits)

lemma setPolicyStatus_conds_Updated_present:
  "VarmorPolicyUpdated \<in> Cond_Type ` set (Status_Conditions (VP_Status vp)) \<Longrightarrow>
   Status_Conditions (VP_Status (setPolicyStatus t vp pn rr ph VarmorPolicyUpdated st rs msg)) =
     fst (updateExisting st t rs msg (Status_Conditions (VP_Status vp)))"
  by (simp add: setPolicyStatus_def Let_def updateExisting_found)

lemma setPolicyStatus_conds_Updated_absent:
  "VarmorPolicyUpdated \<notin> Cond_Type ` set (Status_Conditions (VP_Status vp)) \<Longrightarrow>
   Status_Conditions (VP_Status (setPolicyStatus t vp pn rr ph VarmorPolicyUpdated st rs msg)) =
     Status_Conditions (VP_Status vp) @
       [\<lparr>Cond_Type = VarmorPolicyUpdated, Cond_Status = st, Cond_LastTransitionTime = t,
         Cond_Reason = rs, Cond_Message = msg\<rparr>]"
  by (simp add: setPolicyStatus_def Let_def updateExisting_found updateExisting_absent)

lemma setPolicyStatus_conds_other:
  "ct \<noteq> VarmorPolicyUpdated \<Longrightarrow>
   Status_Conditions (VP_Status (setPolicyStatus t vp pn rr ph ct st rs msg)) =
     Status_Conditions (VP_Status vp) @
       [\<lparr>Cond_Type = ct, Cond_Status = st, Cond_LastTransitionTime = t,
         Cond_Reason = rs, Cond_Message = msg\<rparr>]"
  by (simp add: setPolicyStatus_def Let_def)

lemma setPolicyStatus_Ready:
  "Status_Ready (VP_Status (setPolicyStatus t vp pn rr ph ct st rs msg)) =
     (if rr then False else Status_Ready (VP_Status vp))"
  by (simp add: setPolicyStatus_def Let_def)

lemma setPolicyStatus_Phase:
  "Status_Phase (VP_Status (setPolicyStatus t vp pn rr ph ct st rs msg)) =
     (if ph \<noteq> VarmorPolicyUnchanged then ph else Status_Phase (VP_Status vp))"
  by (simp add: setPolicyStatus_def Let_def)

lemma setPolicyStatus_frame:
  "VP_Spec (setPolicyStatus t vp pn rr ph ct st rs msg) = VP_Spec vp"
  "VP_Namespace (setPolicyStatus t vp pn rr ph ct st rs msg) = VP_Namespace vp"
  "VP_Name (setPolicyStatus t vp pn rr ph ct st rs msg) = VP_Name vp"
  "VP_ResourceVersion (setPolicyStatus t vp pn rr ph ct st rs msg) = VP_ResourceVersion vp"
  by (simp_all add: setPolicyStatus_def Let_def)

lemmas ex_defs = ex_target_def ex_policy_def ex_created_def ex_updated_def ex_vp_def ex_ap_def
  ex_vp_modeling_def ex_ap_modeling_def ex_world_def ex_controller_def ex_queue_def
  ex_vp_edited_def ex_vp_edited_both_def ex_six_errors_def ex_vp_moved_def
  ex_vp_modeling_moved_def ex_vp_modeling_bpf_def ex_vp_modeling_bpf_moved_def
  ex_world_failing_def ex_forbidden_def ex_vp_completed_def ex_vp_job_def ex_vp_relabelled_def
  ex_vp_bad_def ex_world_failing_second_def ex_generation_error_def

lemma updateVarmorPolicyStatus_eq:
  "updateVarmorPolicyStatus vp pn rr ph ct st rs msg w =
     (nextAnswer w, setPolicyStatus (now w) vp pn rr ph ct st rs msg,
      w\<lparr>faults := tl (faults w),
        calls := calls w @ [PolicyUpdateStatus (VP_Namespace vp)
                              (setPolicyStatus (now w) vp pn rr ph ct st rs msg)]\<rparr>)"
  by (simp add: updateVarmorPolicyStatus_def storeCall_def Let_def setPolicyStatus_frame)

lemma updateVarmorClusterPolicyStatus_eq:
  "updateVarmorClusterPolicyStatus vp pn rr ph ct st rs msg w =
     (nextAnswer w, setPolicyStatus (now w) vp pn rr ph ct st rs msg,
      w\<lparr>faults := tl (faults w),
        calls := calls w @ [ClusterPolicyUpdateStatus
                              (setPolicyStatus (now w) vp pn rr ph ct st rs msg)]\<rparr>)"
  by (simp add: updateVarmorClusterPolicyStatus_def storeCall_def Let_def)

lemma length_six: "length es = 6 \<Longrightarrow> \<exists>a b c d e f. es = [a, b, c, d, e, f]"
  by (auto simp: numeral_eq_Suc length_Suc_conv)

lemma validateUpdate_spec_cases:
  "validateUpdate_spec newVp oldAp =
     (if checkMatches TargetChange newVp oldAp then Some TargetChange
      else if checkMatches SwitchIntoModeling newVp oldAp then Some SwitchIntoModeling
      else if checkMatches SwitchOutOfModeling newVp oldAp then Some SwitchOutOfModeling
      else if checkMatches CompletedLock newVp oldAp then Some CompletedLock
      else if checkMatches NoopDuration newVp oldAp then Some NoopDuration
      else if checkMatches EnforcerMismatch newVp oldAp then Some EnforcerMismatch
      else None)"
  unfolding validateUpdate_spec_def checkOrder_def by simp

lemma ignoreUpdate_gateAnswer:
  "ignoreUpdate newVp oldAp w = gateAnswer (validateUpdate_spec newVp oldAp) newVp w"
  unfolding validateUpdate_spec_cases ignoreUpdate_def Let_def
  by simp

lemma cluster_ignoreUpdate_gateAnswer:
  "cluster_ignoreUpdate newVp oldAp w = cluster_gateAnswer (validateUpdate_spec newVp oldAp) newVp w"
  unfolding validateUpdate_spec_cases cluster_ignoreUpdate_def Let_def
  by simp

lemma setPolicyStatus_has_Updated:
  "\<exists>cd. cd \<in> set (Status_Conditions (VP_Status
             (setPolicyStatus t vp pn rr ph VarmorPolicyUpdated st rs msg))) \<and>
        Cond_Type cd = VarmorPolicyUpdated \<and> Cond_Status cd = st \<and> Cond_Reason cd = rs \<and>
        Cond_Message cd = msg"
proof (cases "VarmorPolicyUpdated \<in> Cond_Type ` set (Status_Conditions (VP_Status vp))")
  case True
  from updateExisting_split[OF True, of st t rs msg] obtain pre c post where
    d: "Cond_Type c = VarmorPolicyUpdated"
       "fst (updateExisting st t rs msg (Status_Conditions (VP_Status vp))) =
          pre @ c\<lparr>Cond_Status := st, Cond_LastTransitionTime := t,
                   Cond_Reason := rs, Cond_Message := msg\<rparr> # post" by blast
  show ?thesis
    unfolding setPolicyStatus_conds_Updated_present[OF True] d(2)
    by (rule exI[of _ "c\<lparr>Cond_Status := st, Cond_LastTransitionTime := t,
                   Cond_Reason := rs, Cond_Message := msg\<rparr>"]) (simp add: d(1))
next
  case False
  show ?thesis
    unfolding setPolicyStatus_conds_Updated_absent[OF False]
    by (rule exI[of _ "\<lparr>Cond_Type = VarmorPolicyUpdated, Cond_Status = st,
          Cond_LastTransitionTime = t, Cond_Reason = rs, Cond_Message = msg\<rparr>"]) simp
qed

text \<open>A rejection by check \<open>k\<close>: one status write, whose answer is returned.\<close>

lemma gateAnswer_reject:
  assumes "k \<noteq> NoopDuration"
  shows "gateAnswer (Some k) newVp w =
     (True, nextAnswer w,
      setPolicyStatus (now w) newVp [] (k \<noteq> CompletedLock) VarmorPolicyUnchanged
        VarmorPolicyUpdated ConditionFalse ''Forbidden'' (forbiddenMessage k),
      w\<lparr>faults := tl (faults w),
        calls := calls w @ [PolicyUpdateStatus (VP_Namespace newVp)
          (setPolicyStatus (now w) newVp [] (k \<noteq> CompletedLock) VarmorPolicyUnchanged
             VarmorPolicyUpdated ConditionFalse ''Forbidden'' (forbiddenMessage k))]\<rparr>)"
  using assms by (cases k) (simp_all add: updateVarmorPolicyStatus_eq)

lemma cluster_gateAnswer_reject:
  assumes "k \<noteq> NoopDuration"
  shows "cluster_gateAnswer (Some k) newVp w =
     (True, nextAnswer w,
      setPolicyStatus (now w) newVp [] (k \<noteq> CompletedLock) VarmorPolicyUnchanged
        VarmorPolicyUpdated ConditionFalse ''Forbidden'' (cluster_forbiddenMessage k),
      w\<lparr>faults := tl (faults w),
        calls := calls w @ [ClusterPolicyUpdateStatus
          (setPolicyStatus (now w) newVp [] (k \<noteq> CompletedLock) VarmorPolicyUnchanged
             VarmorPolicyUpdated ConditionFalse ''Forbidden'' (cluster_forbiddenMessage k))]\<rparr>)"
  using assms by (cases k) (simp_all add: updateVarmorClusterPolicyStatus_eq)

lemma handleUpdate_ignored:
  "fst (ignoreUpdate newVp oldAp w) \<Longrightarrow>
   handleUpdateVarmorPolicy c newVp oldAp w = snd (ignoreUpdate newVp oldAp w)"
  by (cases "ignoreUpdate newVp oldAp w") (simp add: handleUpdateVarmorPolicy_def)

lemma cluster_handleUpdate_ignored:
  "fst (cluster_ignoreUpdate newVp oldAp w) \<Longrightarrow>
   handleUpdateVarmorClusterPolicy c newVp oldAp w = snd (cluster_ignoreUpdate newVp oldAp w)"
  by (cases "cluster_ignoreUpdate newVp oldAp w") (simp add: handleUpdateVarmorClusterPolicy_def)

lemma validate_TargetChange:
  "Spec_Target (VP_Spec newVp) \<noteq> APSpec_Target (AP_Spec oldAp) \<Longrightarrow>
   validateUpdate_spec newVp oldAp = Some TargetChange"
  by (simp add: validateUpdate_spec_cases)

lemmas run_defs = ignoreUpdate_def cluster_ignoreUpdate_def handleUpdateVarmorPolicy_def
  handleUpdateVarmorClusterPolicy_def updateVarmorPolicyStatus_eq
  updateVarmorClusterPolicyStatus_eq setPolicyStatus_def nextAnswer_def Let_def type_consts

lemma ignoreUpdate_reject:
  assumes "validateUpdate_spec newVp oldAp = Some k" and "k \<noteq> NoopDuration"
  shows "ignoreUpdate newVp oldAp w =
     (True, nextAnswer w,
      setPolicyStatus (now w) newVp [] (k \<noteq> CompletedLock) VarmorPolicyUnchanged
        VarmorPolicyUpdated ConditionFalse ''Forbidden'' (forbiddenMessage k),
      w\<lparr>faults := tl (faults w),
        calls := calls w @ [PolicyUpdateStatus (VP_Namespace newVp)
          (setPolicyStatus (now w) newVp [] (k \<noteq> CompletedLock) VarmorPolicyUnchanged
             VarmorPolicyUpdated ConditionFalse ''Forbidden'' (forbiddenMessage k))]\<rparr>)"
  unfolding ignoreUpdate_gateAnswer assms(1) using assms(2) by (rule gateAnswer_reject)

lemma cluster_ignoreUpdate_reject:
  assumes "validateUpdate_spec newVp oldAp = Some k" and "k \<noteq> NoopDuration"
  shows "cluster_ignoreUpdate newVp oldAp w =
     (True, nextAnswer w,
      setPolicyStatus (now w) newVp [] (k \<noteq> CompletedLock) VarmorPolicyUnchanged
        VarmorPolicyUpdated ConditionFalse ''Forbidden'' (cluster_forbiddenMessage k),
      w\<lparr>faults := tl (faults w),
        calls := calls w @ [ClusterPolicyUpdateStatus
          (setPolicyStatus (now w) newVp [] (k \<noteq> CompletedLock) VarmorPolicyUnchanged
             VarmorPolicyUpdated ConditionFalse ''Forbidden'' (cluster_forbiddenMessage k))]\<rparr>)"
  unfolding cluster_ignoreUpdate_gateAnswer assms(1) using assms(2)
  by (rule cluster_gateAnswer_reject)

lemma ignoreUpdate_proceed:
  "\<not> fst (ignoreUpdate newVp oldAp w) \<Longrightarrow> ignoreUpdate newVp oldAp w = (False, None, newVp, w)"
  unfolding ignoreUpdate_gateAnswer
  by (cases "validateUpdate_spec newVp oldAp"; cases "the (validateUpdate_spec newVp oldAp)") simp_all

lemma cluster_ignoreUpdate_proceed:
  "\<not> fst (cluster_ignoreUpdate newVp oldAp w) \<Longrightarrow>
   cluster_ignoreUpdate newVp oldAp w = (False, None, newVp, w)"
  unfolding cluster_ignoreUpdate_gateAnswer
  by (cases "validateUpdate_spec newVp oldAp"; cases "the (validateUpdate_spec newVp oldAp)") simp_all

lemma validate_NoopDuration:
  assumes "Spec_Target (VP_Spec newVp) = APSpec_Target (AP_Spec oldAp)"
    and "BM_ModelingDuration (APSpec_BehaviorModeling (AP_Spec oldAp)) \<noteq> 0"
    and "Policy_Mode (Spec_Policy (VP_Spec newVp)) = DefenseInDepthMode"
    and "Status_Phase (VP_Status newVp) = VarmorPolicyModeling"
    and "Policy_DefenseInDepth_ModelingDuration (Spec_Policy (VP_Spec newVp)) =
           BM_ModelingDuration (APSpec_BehaviorModeling (AP_Spec oldAp))"
  shows "validateUpdate_spec newVp oldAp = Some NoopDuration"
  using assms by (simp add: validateUpdate_spec_cases type_consts)

lemma ignoreAdd_cases:
  "ignoreAdd c vp w = (False, vp, w) \<or>
   (\<exists>msg. ignoreAdd c vp w =
      (True, snd (updateVarmorPolicyStatus vp [] True VarmorPolicyError VarmorPolicyCreated
                    ConditionFalse ''Forbidden'' msg w)))"
  unfolding ignoreAdd_def Let_def
  apply (cases "Target_Kind (Spec_Target (VP_Spec vp)) \<noteq> ''Deployment'' \<and>
         Target_Kind (Spec_Target (VP_Spec vp)) \<noteq> ''StatefulSet'' \<and>
         Target_Kind (Spec_Target (VP_Spec vp)) \<noteq> ''DaemonSet'' \<and>
         Target_Kind (Spec_Target (VP_Spec vp)) \<noteq> ''Pod''")
   apply (subst if_P, assumption, rule disjI2, subst if_P, assumption, rule exI, rule refl)
  apply (subst if_not_P, assumption, subst (2) if_not_P, assumption)
  apply (cases "Target_Name (Spec_Target (VP_Spec vp)) = [] \<and>
                Target_Selector (Spec_Target (VP_Spec vp)) = None")
   apply (subst if_P, assumption, rule disjI2, subst if_P, assumption, rule exI, rule refl)
  apply (subst if_not_P, assumption, subst (2) if_not_P, assumption)
  apply (cases "Target_Name (Spec_Target (VP_Spec vp)) \<noteq> [] \<and>
                Target_Selector (Spec_Target (VP_Spec vp)) \<noteq> None")
   apply (subst if_P, assumption, rule disjI2, subst if_P, assumption, rule exI, rule refl)
  apply (subst if_not_P, assumption, subst (2) if_not_P, assumption)
  apply (cases "\<not> enableDefenseInDepth c \<and>
                Policy_Mode (Spec_Policy (VP_Spec vp)) = DefenseInDepthMode")
   apply (subst if_P, assumption, rule disjI2, subst if_P, assumption, rule exI, rule refl)
  apply (subst if_not_P, assumption, subst (2) if_not_P, assumption)
  apply (cases "63 < length (GenerateArmorProfileName c (VP_Namespace vp) (VP_Name vp) False)")
   apply (subst if_P, assumption, rule disjI2, subst if_P, assumption, rule exI, rule refl)
  apply (subst if_not_P, assumption, rule disjI1, rule refl)
  done

lemma ignoreAdd_reject:
  assumes "fst (ignoreAdd c vp w)"
  shows "\<exists>msg. ignoreAdd c vp w =
     (True,
      setPolicyStatus (now w) vp [] True VarmorPolicyError VarmorPolicyCreated ConditionFalse
        ''Forbidden'' msg,
      w\<lparr>faults := tl (faults w),
        calls := calls w @ [PolicyUpdateStatus (VP_Namespace vp)
          (setPolicyStatus (now w) vp [] True VarmorPolicyError VarmorPolicyCreated ConditionFalse
             ''Forbidden'' msg)]\<rparr>)"
proof -
  from ignoreAdd_cases[of c vp w] assms obtain msg where
    "ignoreAdd c vp w =
      (True, snd (updateVarmorPolicyStatus vp [] True VarmorPolicyError VarmorPolicyCreated
                    ConditionFalse ''Forbidden'' msg w))"
    by auto
  then have "ignoreAdd c vp w =
     (True,
      setPolicyStatus (now w) vp [] True VarmorPolicyError VarmorPolicyCreated ConditionFalse
        ''Forbidden'' msg,
      w\<lparr>faults := tl (faults w),
        calls := calls w @ [PolicyUpdateStatus (VP_Namespace vp)
          (setPolicyStatus (now w) vp [] True VarmorPolicyError VarmorPolicyCreated ConditionFalse
             ''Forbidden'' msg)]\<rparr>)"
    by (simp add: updateVarmorPolicyStatus_eq)
  then show ?thesis by (rule exI)
qed

lemma handleAdd_ignored:
  "fst (ignoreAdd c vp w) \<Longrightarrow> handleAddVarmorPolicy c vp w = (None, snd (ignoreAdd c vp w))"
  by (cases "ignoreAdd c vp w") (simp add: handleAddVarmorPolicy_def)

lemma newApSpecOf_setPolicyStatus:
  "newApSpecOf (setPolicyStatus t vp pn rr ph ct st rs msg) oldAp p = newApSpecOf vp oldAp p"
  by (simp add: newApSpecOf_def setPolicyStatus_frame Let_def)

text \<open>The handlers past the gate and past the first status write, up to the generator.\<close>

lemma handleUpdate_generated:
  assumes "\<not> fst (ignoreUpdate newVp oldAp w)" and "nextAnswer w = None"
    and "GenerateProfile c (Spec_Policy (VP_Spec newVp))
           (Profile_Name (APSpec_Profile (AP_Spec oldAp))) False [] = Inr p"
    and "newApSpecOf newVp oldAp p = AP_Spec oldAp"
  shows "handleUpdateVarmorPolicy c newVp oldAp w =
     (None,
      setPolicyStatus (now w) newVp [] True VarmorPolicyPending VarmorPolicyUpdated
        ConditionTrue [] [],
      w\<lparr>faults := tl (faults w),
        calls := calls w @
          [PolicyUpdateStatus (VP_Namespace newVp)
             (setPolicyStatus (now w) newVp [] True VarmorPolicyPending VarmorPolicyUpdated
                ConditionTrue [] []),
           SendUpdateStatusCh (VP_Namespace newVp @ ''/'' @ VP_Name newVp)],
        UpdateDesiredNumber := True\<rparr>)"
  unfolding handleUpdateVarmorPolicy_def ignoreUpdate_proceed[OF assms(1)]
  by (simp add: updateVarmorPolicyStatus_eq assms(2,3,4) setPolicyStatus_frame
      newApSpecOf_setPolicyStatus send_def)

lemma cluster_handleUpdate_generated:
  assumes "\<not> fst (cluster_ignoreUpdate newVp oldAp w)" and "nextAnswer w = None"
    and "GenerateProfile c (Spec_Policy (VP_Spec newVp))
           (Profile_Name (APSpec_Profile (AP_Spec oldAp))) False [] = Inr p"
    and "(AP_Spec oldAp)\<lparr>APSpec_Profile := p\<rparr> = AP_Spec oldAp"
  shows "handleUpdateVarmorClusterPolicy c newVp oldAp w =
     (None,
      setPolicyStatus (now w) newVp [] True VarmorPolicyPending VarmorPolicyUpdated
        ConditionTrue [] [],
      w\<lparr>faults := tl (faults w),
        calls := calls w @
          [ClusterPolicyUpdateStatus
             (setPolicyStatus (now w) newVp [] True VarmorPolicyPending VarmorPolicyUpdated
                ConditionTrue [] []),
           SendUpdateStatusCh (VP_Name newVp)],
        UpdateDesiredNumber := True\<rparr>)"
  unfolding handleUpdateVarmorClusterPolicy_def cluster_ignoreUpdate_proceed[OF assms(1)]
  by (simp add: updateVarmorClusterPolicyStatus_eq assms(2,3,4) setPolicyStatus_frame send_def)

lemma nextAnswer_calls:
  "nextAnswer (w\<lparr>faults := fs, calls := cs\<rparr>) = nextAnswer (w\<lparr>faults := fs\<rparr>)"
  by (simp add: nextAnswer_def)

lemma Created_not_Updated: "VarmorPolicyCreated \<noteq> VarmorPolicyUpdated"
  by (simp add: type_consts)

lemma Error_not_Unchanged: "VarmorPolicyError \<noteq> VarmorPolicyUnchanged"
  by (simp add: type_consts)

lemma handleUpdate_generator_failed:
  assumes "\<not> fst (ignoreUpdate newVp oldAp w)" and "nextAnswer w = None"
    and "GenerateProfile c (Spec_Policy (VP_Spec newVp))
           (Profile_Name (APSpec_Profile (AP_Spec oldAp))) False [] = Inl msg"
  shows "handleUpdateVarmorPolicy c newVp oldAp w =
     (nextAnswer (w\<lparr>faults := tl (faults w)\<rparr>),
      setPolicyStatus (now w)
        (setPolicyStatus (now w) newVp [] True VarmorPolicyPending VarmorPolicyUpdated
           ConditionTrue [] [])
        [] True VarmorPolicyError VarmorPolicyCreated ConditionFalse ''Error'' msg,
      w\<lparr>faults := tl (tl (faults w)),
        calls := calls w @
          [PolicyUpdateStatus (VP_Namespace newVp)
             (setPolicyStatus (now w) newVp [] True VarmorPolicyPending VarmorPolicyUpdated
                ConditionTrue [] []),
           PolicyUpdateStatus (VP_Namespace newVp)
             (setPolicyStatus (now w)
                (setPolicyStatus (now w) newVp [] True VarmorPolicyPending VarmorPolicyUpdated
                   ConditionTrue [] [])
                [] True VarmorPolicyError VarmorPolicyCreated ConditionFalse ''Error'' msg)]\<rparr>)"
  unfolding handleUpdateVarmorPolicy_def ignoreUpdate_proceed[OF assms(1)]
  by (simp add: updateVarmorPolicyStatus_eq assms(2,3) setPolicyStatus_frame nextAnswer_calls)

lemma cluster_handleUpdate_generator_failed:
  assumes "\<not> fst (cluster_ignoreUpdate newVp oldAp w)" and "nextAnswer w = None"
    and "GenerateProfile c (Spec_Policy (VP_Spec newVp))
           (Profile_Name (APSpec_Profile (AP_Spec oldAp))) False [] = Inl msg"
  shows "handleUpdateVarmorClusterPolicy c newVp oldAp w =
     (nextAnswer (w\<lparr>faults := tl (faults w)\<rparr>),
      setPolicyStatus (now w)
        (setPolicyStatus (now w) newVp [] True VarmorPolicyPending VarmorPolicyUpdated
           ConditionTrue [] [])
        [] True VarmorPolicyError VarmorPolicyCreated ConditionFalse ''Error'' msg,
      w\<lparr>faults := tl (tl (faults w)),
        calls := calls w @
          [ClusterPolicyUpdateStatus
             (setPolicyStatus (now w) newVp [] True VarmorPolicyPending VarmorPolicyUpdated
                ConditionTrue [] []),
           ClusterPolicyUpdateStatus
             (setPolicyStatus (now w)
                (setPolicyStatus (now w) newVp [] True VarmorPolicyPending VarmorPolicyUpdated
                   ConditionTrue [] [])
                [] True VarmorPolicyError VarmorPolicyCreated ConditionFalse ''Error'' msg)]\<rparr>)"
  unfolding handleUpdateVarmorClusterPolicy_def cluster_ignoreUpdate_proceed[OF assms(1)]
  by (simp add: updateVarmorClusterPolicyStatus_eq assms(2,3) setPolicyStatus_frame
      nextAnswer_calls)

lemma generator_failure_status:
  fixes vp1 vp2 :: varmorPolicy
  assumes "vp1 = setPolicyStatus t newVp [] True VarmorPolicyPending VarmorPolicyUpdated
                   ConditionTrue [] []"
    and "vp2 = setPolicyStatus t vp1 [] True VarmorPolicyError VarmorPolicyCreated
                   ConditionFalse ''Error'' msg"
  shows "Status_Conditions (VP_Status vp2) =
           Status_Conditions (VP_Status vp1) @
             [\<lparr>Cond_Type = VarmorPolicyCreated, Cond_Status = ConditionFalse,
               Cond_LastTransitionTime = t, Cond_Reason = ''Error'', Cond_Message = msg\<rparr>] \<and>
         (\<exists>cd. cd \<in> set (Status_Conditions (VP_Status vp1)) \<and>
               Cond_Type cd = VarmorPolicyUpdated \<and> Cond_Status cd = ConditionTrue) \<and>
         Status_Phase (VP_Status vp2) = VarmorPolicyError \<and>
         Status_Ready (VP_Status vp2) = False"
proof -
  have 1: "Status_Conditions (VP_Status vp2) =
           Status_Conditions (VP_Status vp1) @
             [\<lparr>Cond_Type = VarmorPolicyCreated, Cond_Status = ConditionFalse,
               Cond_LastTransitionTime = t, Cond_Reason = ''Error'', Cond_Message = msg\<rparr>]"
    unfolding assms(2) by (rule setPolicyStatus_conds_other) (rule Created_not_Updated)
  have 2: "\<exists>cd. cd \<in> set (Status_Conditions (VP_Status vp1)) \<and>
               Cond_Type cd = VarmorPolicyUpdated \<and> Cond_Status cd = ConditionTrue"
    unfolding assms(1)
    using setPolicyStatus_has_Updated[of t newVp "[]" True VarmorPolicyPending ConditionTrue "[]" "[]"]
    by blast
  have 3: "Status_Phase (VP_Status vp2) = VarmorPolicyError"
    unfolding assms(2) by (simp add: setPolicyStatus_Phase Error_not_Unchanged)
  have 4: "Status_Ready (VP_Status vp2) = False"
    unfolding assms(2) by (simp add: setPolicyStatus_Ready)
  from 1 2 3 4 show ?thesis by blast
qed

section \<open>Event router\<close>

text \<open>
  C1 (as amended). An update notification is enqueued exactly when the resource version
  changed, the spec changed and the status did not change; every other notification is
  skipped, also one in which both the spec and the status changed. Both controllers.
\<close>

theorem update_event_enqueue_iff:
  "updateVarmorPolicy oldVp newVp q =
     (if VP_ResourceVersion newVp \<noteq> VP_ResourceVersion oldVp \<and> VP_Spec newVp \<noteq> VP_Spec oldVp \<and>
         VP_Status newVp = VP_Status oldVp
      then queue_Add (MetaNamespaceKeyFunc newVp) q else q) \<and>
   updateVarmorClusterPolicy oldVp newVp q =
     (if VP_ResourceVersion newVp \<noteq> VP_ResourceVersion oldVp \<and> VP_Spec newVp \<noteq> VP_Spec oldVp \<and>
         VP_Status newVp = VP_Status oldVp
      then queue_Add (MetaNamespaceKeyFunc newVp) q else q)"
  by (simp add: updateVarmorPolicy_def updateVarmorClusterPolicy_def enqueuePolicy_def
      enqueueClusterPolicy_def)

theorem update_event_enqueue_iff_witness:
  "ops (updateVarmorPolicy ex_vp ex_vp_edited ex_queue) = [Add ''demo/app''] \<and>
   ops (updateVarmorClusterPolicy ex_vp ex_vp_edited ex_queue) = [Add ''demo/app'']"
  using update_event_enqueue_iff [of ex_vp ex_vp_edited ex_queue]
  by (simp add: ex_defs queue_Add_def MetaNamespaceKeyFunc_def)

text \<open>
  C1 as stated fails: resource version, spec and status all differ between \<open>ex_vp\<close> and
  \<open>ex_vp_edited_both\<close>, and neither controller enqueues anything.
\<close>

theorem update_event_spec_and_status_changed_skipped:
  "VP_ResourceVersion ex_vp_edited_both \<noteq> VP_ResourceVersion ex_vp \<and>
   VP_Spec ex_vp_edited_both \<noteq> VP_Spec ex_vp \<and>
   VP_Status ex_vp_edited_both \<noteq> VP_Status ex_vp \<and>
   ops (updateVarmorPolicy ex_vp ex_vp_edited_both ex_queue) = [] \<and>
   ops (updateVarmorClusterPolicy ex_vp ex_vp_edited_both ex_queue) = []"
  by (simp add: ex_defs updateVarmorPolicy_def updateVarmorClusterPolicy_def)

section \<open>Validation rejections and the result of the sync\<close>

text \<open>
  C2 (as amended). A create rejected by the gate sends one status update, whose policy
  object has a new condition \<open>Created\<close>/\<open>False\<close>/\<open>Forbidden\<close>, and the handler returns
  success whatever the store answers. An update rejected as \<open>Forbidden\<close> sends one status
  update, whose policy object carries a condition \<open>Updated\<close>/\<open>False\<close>/\<open>Forbidden\<close>, and
  the handler returns the store's answer to it: success when the write succeeds, the
  store's error when it fails.
\<close>

theorem validation_rejection_result:
  "(fst (ignoreAdd c vp w) \<longrightarrow>
      (\<exists>vp' msg. handleAddVarmorPolicy c vp w =
         (None, vp',
          w\<lparr>faults := tl (faults w),
            calls := calls w @ [PolicyUpdateStatus (VP_Namespace vp) vp']\<rparr>) \<and>
         Status_Conditions (VP_Status vp') =
           Status_Conditions (VP_Status vp) @
             [\<lparr>Cond_Type = VarmorPolicyCreated, Cond_Status = ConditionFalse,
               Cond_LastTransitionTime = now w, Cond_Reason = ''Forbidden'',
               Cond_Message = msg\<rparr>])) \<and>
   (validateUpdate_spec newVp oldAp \<in>
      {Some TargetChange, Some SwitchIntoModeling, Some SwitchOutOfModeling, Some CompletedLock,
       Some EnforcerMismatch} \<longrightarrow>
      (\<exists>vp' cd. handleUpdateVarmorPolicy c newVp oldAp w =
         (nextAnswer w, vp',
          w\<lparr>faults := tl (faults w),
            calls := calls w @ [PolicyUpdateStatus (VP_Namespace newVp) vp']\<rparr>) \<and>
         cd \<in> set (Status_Conditions (VP_Status vp')) \<and>
         Cond_Type cd = VarmorPolicyUpdated \<and> Cond_Status cd = ConditionFalse \<and>
         Cond_Reason cd = ''Forbidden''))"
proof (intro conjI impI)
  assume a: "fst (ignoreAdd c vp w)"
  from ignoreAdd_reject[OF a] obtain msg where
    m: "ignoreAdd c vp w =
     (True,
      setPolicyStatus (now w) vp [] True VarmorPolicyError VarmorPolicyCreated ConditionFalse
        ''Forbidden'' msg,
      w\<lparr>faults := tl (faults w),
        calls := calls w @ [PolicyUpdateStatus (VP_Namespace vp)
          (setPolicyStatus (now w) vp [] True VarmorPolicyError VarmorPolicyCreated ConditionFalse
             ''Forbidden'' msg)]\<rparr>)" by blast
  have ne: "VarmorPolicyCreated \<noteq> VarmorPolicyUpdated" by (simp add: type_consts)
  show "\<exists>vp' msg. handleAddVarmorPolicy c vp w =
         (None, vp',
          w\<lparr>faults := tl (faults w),
            calls := calls w @ [PolicyUpdateStatus (VP_Namespace vp) vp']\<rparr>) \<and>
         Status_Conditions (VP_Status vp') =
           Status_Conditions (VP_Status vp) @
             [\<lparr>Cond_Type = VarmorPolicyCreated, Cond_Status = ConditionFalse,
               Cond_LastTransitionTime = now w, Cond_Reason = ''Forbidden'',
               Cond_Message = msg\<rparr>]"
    using handleAdd_ignored[OF a] setPolicyStatus_conds_other[OF ne]
    by (simp add: m)
next
  assume "validateUpdate_spec newVp oldAp \<in>
      {Some TargetChange, Some SwitchIntoModeling, Some SwitchOutOfModeling, Some CompletedLock,
       Some EnforcerMismatch}"
  then obtain k where v: "validateUpdate_spec newVp oldAp = Some k"
    and k: "k \<noteq> NoopDuration" by auto
  note r = ignoreUpdate_reject[OF v k, of w]
  have h: "handleUpdateVarmorPolicy c newVp oldAp w = snd (ignoreUpdate newVp oldAp w)"
    by (rule handleUpdate_ignored) (simp add: r)
  from setPolicyStatus_has_Updated[of "now w" newVp "[]" "k \<noteq> CompletedLock"
        VarmorPolicyUnchanged ConditionFalse "''Forbidden''" "forbiddenMessage k"]
  obtain cd where cd: "cd \<in> set (Status_Conditions (VP_Status
        (setPolicyStatus (now w) newVp [] (k \<noteq> CompletedLock) VarmorPolicyUnchanged
           VarmorPolicyUpdated ConditionFalse ''Forbidden'' (forbiddenMessage k))))"
      "Cond_Type cd = VarmorPolicyUpdated" "Cond_Status cd = ConditionFalse"
      "Cond_Reason cd = ''Forbidden''" by blast
  show "\<exists>vp' cd. handleUpdateVarmorPolicy c newVp oldAp w =
         (nextAnswer w, vp',
          w\<lparr>faults := tl (faults w),
            calls := calls w @ [PolicyUpdateStatus (VP_Namespace newVp) vp']\<rparr>) \<and>
         cd \<in> set (Status_Conditions (VP_Status vp')) \<and>
         Cond_Type cd = VarmorPolicyUpdated \<and> Cond_Status cd = ConditionFalse \<and>
         Cond_Reason cd = ''Forbidden''"
    unfolding h r using cd by auto
qed

theorem validation_rejection_result_witness:
  "fst (ignoreAdd ex_controller ex_vp_job ex_world_failing) \<and>
   fst (handleAddVarmorPolicy ex_controller ex_vp_job ex_world_failing) = None \<and>
   length (calls (snd (snd (handleAddVarmorPolicy ex_controller ex_vp_job ex_world_failing)))) = 1 \<and>
   validateUpdate_spec ex_vp_moved ex_ap = Some TargetChange \<and>
   fst (handleUpdateVarmorPolicy ex_controller ex_vp_moved ex_ap ex_world) = None \<and>
   length (calls (snd (snd (handleUpdateVarmorPolicy ex_controller ex_vp_moved ex_ap ex_world)))) = 1"
  using validation_rejection_result [of ex_controller ex_vp_job ex_world_failing ex_vp_moved ex_ap]
        validation_rejection_result [of ex_controller ex_vp_job ex_world ex_vp_moved ex_ap]
  by (simp add: ex_defs validateUpdate_spec_cases run_defs ignoreAdd_def
      handleAddVarmorPolicy_def)

text \<open>
  C2 as stated fails for an update: the target check rejects, the store fails on the
  status update, and the handler returns that error.
\<close>

theorem forbidden_update_store_failure_returned:
  "validateUpdate_spec ex_vp_moved ex_ap = Some TargetChange \<and>
   fst (handleUpdateVarmorPolicy ex_controller ex_vp_moved ex_ap ex_world_failing) =
     Some (Failure ''conflict'') \<and>
   calls (snd (snd (handleUpdateVarmorPolicy ex_controller ex_vp_moved ex_ap ex_world_failing))) =
     [PolicyUpdateStatus ''demo''
        (fst (snd (handleUpdateVarmorPolicy ex_controller ex_vp_moved ex_ap ex_world_failing)))] \<and>
   Status_Conditions (VP_Status (fst (snd
     (handleUpdateVarmorPolicy ex_controller ex_vp_moved ex_ap ex_world_failing)))) =
     [ex_created, ex_forbidden]"
  by (simp add: ex_defs validateUpdate_spec_cases run_defs)

section \<open>Status reporter: which conditions are replaced\<close>

text \<open>
  C3 (as amended). A call with condition type \<open>Updated\<close>, on a policy that has a
  condition of that type, overwrites status, reason, message and timestamp of the first
  such entry in place: the entries before and after it are kept, in order, and nothing
  is appended. A call with any other condition type appends a new entry and leaves all
  existing entries as they are, whether or not one has that type. Both controllers.
\<close>

theorem status_reporter_in_place_only_for_Updated:
  "(VarmorPolicyUpdated \<in> Cond_Type ` set (Status_Conditions (VP_Status vp)) \<longrightarrow>
      (\<exists>pre c post.
         Status_Conditions (VP_Status vp) = pre @ c # post \<and>
         VarmorPolicyUpdated \<notin> Cond_Type ` set pre \<and> Cond_Type c = VarmorPolicyUpdated \<and>
         Status_Conditions (VP_Status (fst (snd
           (updateVarmorPolicyStatus vp pn rr ph VarmorPolicyUpdated st rs msg w)))) =
           pre @ c\<lparr>Cond_Status := st, Cond_LastTransitionTime := now w,
                    Cond_Reason := rs, Cond_Message := msg\<rparr> # post \<and>
         Status_Conditions (VP_Status (fst (snd
           (updateVarmorClusterPolicyStatus vp pn rr ph VarmorPolicyUpdated st rs msg w)))) =
           pre @ c\<lparr>Cond_Status := st, Cond_LastTransitionTime := now w,
                    Cond_Reason := rs, Cond_Message := msg\<rparr> # post)) \<and>
   (ct \<noteq> VarmorPolicyUpdated \<longrightarrow>
      Status_Conditions (VP_Status (fst (snd
        (updateVarmorPolicyStatus vp pn rr ph ct st rs msg w)))) =
        Status_Conditions (VP_Status vp) @
          [\<lparr>Cond_Type = ct, Cond_Status = st, Cond_LastTransitionTime = now w,
            Cond_Reason = rs, Cond_Message = msg\<rparr>] \<and>
      Status_Conditions (VP_Status (fst (snd
        (updateVarmorClusterPolicyStatus vp pn rr ph ct st rs msg w)))) =
        Status_Conditions (VP_Status vp) @
          [\<lparr>Cond_Type = ct, Cond_Status = st, Cond_LastTransitionTime = now w,
            Cond_Reason = rs, Cond_Message = msg\<rparr>])"
proof (intro conjI impI)
  assume h: "VarmorPolicyUpdated \<in> Cond_Type ` set (Status_Conditions (VP_Status vp))"
  from updateExisting_split[OF h, of st "now w" rs msg]
  obtain pre c post where
    d: "Status_Conditions (VP_Status vp) = pre @ c # post"
       "VarmorPolicyUpdated \<notin> Cond_Type ` set pre"
       "Cond_Type c = VarmorPolicyUpdated"
       "fst (updateExisting st (now w) rs msg (Status_Conditions (VP_Status vp))) =
          pre @ c\<lparr>Cond_Status := st, Cond_LastTransitionTime := now w,
                   Cond_Reason := rs, Cond_Message := msg\<rparr> # post"
    by blast
  have r: "Status_Conditions (VP_Status
             (setPolicyStatus (now w) vp pn rr ph VarmorPolicyUpdated st rs msg)) =
          pre @ c\<lparr>Cond_Status := st, Cond_LastTransitionTime := now w,
                   Cond_Reason := rs, Cond_Message := msg\<rparr> # post"
    using setPolicyStatus_conds_Updated_present[of vp "now w" pn rr ph st rs msg] h d(4)
    by simp
  show "\<exists>pre c post.
         Status_Conditions (VP_Status vp) = pre @ c # post \<and>
         VarmorPolicyUpdated \<notin> Cond_Type ` set pre \<and> Cond_Type c = VarmorPolicyUpdated \<and>
         Status_Conditions (VP_Status (fst (snd
           (updateVarmorPolicyStatus vp pn rr ph VarmorPolicyUpdated st rs msg w)))) =
           pre @ c\<lparr>Cond_Status := st, Cond_LastTransitionTime := now w,
                    Cond_Reason := rs, Cond_Message := msg\<rparr> # post \<and>
         Status_Conditions (VP_Status (fst (snd
           (updateVarmorClusterPolicyStatus vp pn rr ph VarmorPolicyUpdated st rs msg w)))) =
           pre @ c\<lparr>Cond_Status := st, Cond_LastTransitionTime := now w,
                    Cond_Reason := rs, Cond_Message := msg\<rparr> # post"
    using d(1,2,3) r
    unfolding updateVarmorPolicyStatus_eq updateVarmorClusterPolicyStatus_eq by auto
next
  assume "ct \<noteq> VarmorPolicyUpdated"
  then show "Status_Conditions (VP_Status (fst (snd
        (updateVarmorPolicyStatus vp pn rr ph ct st rs msg w)))) =
        Status_Conditions (VP_Status vp) @
          [\<lparr>Cond_Type = ct, Cond_Status = st, Cond_LastTransitionTime = now w,
            Cond_Reason = rs, Cond_Message = msg\<rparr>]"
    by (simp add: updateVarmorPolicyStatus_eq setPolicyStatus_conds_other)
next
  assume "ct \<noteq> VarmorPolicyUpdated"
  then show "Status_Conditions (VP_Status (fst (snd
        (updateVarmorClusterPolicyStatus vp pn rr ph ct st rs msg w)))) =
        Status_Conditions (VP_Status vp) @
          [\<lparr>Cond_Type = ct, Cond_Status = st, Cond_LastTransitionTime = now w,
            Cond_Reason = rs, Cond_Message = msg\<rparr>]"
    by (simp add: updateVarmorClusterPolicyStatus_eq setPolicyStatus_conds_other)
qed

theorem status_reporter_in_place_only_for_Updated_witness:
  "Status_Conditions (VP_Status (fst (snd
     (updateVarmorPolicyStatus ex_vp [] True VarmorPolicyUnchanged VarmorPolicyUpdated
        ConditionFalse ''Forbidden'' ''no'' ex_world)))) =
     [ex_created, ex_updated\<lparr>Cond_Status := ''False'', Cond_LastTransitionTime := 7,
                             Cond_Reason := ''Forbidden'', Cond_Message := ''no''\<rparr>] \<and>
   Status_Conditions (VP_Status (fst (snd
     (updateVarmorClusterPolicyStatus ex_vp [] True VarmorPolicyUnchanged VarmorPolicyCreated
        ConditionFalse ''Forbidden'' ''no'' ex_world)))) =
     [ex_created, ex_updated,
      \<lparr>Cond_Type = ''Created'', Cond_Status = ''False'', Cond_LastTransitionTime = 7,
       Cond_Reason = ''Forbidden'', Cond_Message = ''no''\<rparr>]"
  using status_reporter_in_place_only_for_Updated
    [of ex_vp "[]" True VarmorPolicyUnchanged ConditionFalse "''Forbidden''" "''no''" ex_world
        VarmorPolicyCreated]
  by (simp add: ex_defs type_consts updateVarmorPolicyStatus_eq updateVarmorClusterPolicyStatus_eq
      setPolicyStatus_def Let_def)

text \<open>
  C3 as stated fails for the type \<open>Created\<close>: \<open>ex_vp\<close> has a \<open>Created\<close> condition, and a
  call with that type leaves it as it is and appends a second one.
\<close>

theorem status_reporter_Created_appended_again:
  "ex_created \<in> set (Status_Conditions (VP_Status ex_vp)) \<and>
   Cond_Type ex_created = VarmorPolicyCreated \<and>
   Status_Conditions (VP_Status (fst (snd
     (updateVarmorPolicyStatus ex_vp [] True VarmorPolicyError VarmorPolicyCreated
        ConditionFalse ''Error'' ''no'' ex_world)))) =
     [ex_created, ex_updated,
      \<lparr>Cond_Type = ''Created'', Cond_Status = ''False'', Cond_LastTransitionTime = 7,
       Cond_Reason = ''Error'', Cond_Message = ''no''\<rparr>] \<and>
   Status_Conditions (VP_Status (fst (snd
     (updateVarmorClusterPolicyStatus ex_vp [] True VarmorPolicyError VarmorPolicyCreated
        ConditionFalse ''Error'' ''no'' ex_world)))) =
     [ex_created, ex_updated,
      \<lparr>Cond_Type = ''Created'', Cond_Status = ''False'', Cond_LastTransitionTime = 7,
       Cond_Reason = ''Error'', Cond_Message = ''no''\<rparr>]"
  by (simp add: ex_defs type_consts updateVarmorPolicyStatus_eq updateVarmorClusterPolicyStatus_eq
      setPolicyStatus_def Let_def)

section \<open>Update gate: order of the checks\<close>

text \<open>
  C4 (as amended). The answer of the update gate is that of the first matching check in
  the order target change, switch into behavior-modeling, switch out of
  behavior-modeling, completed/protecting lock, unchanged duration, enforcer mismatch
  (and \<open>proceed\<close> when none matches). So an update
  of a behavior-modeling policy in phase \<open>Modeling\<close> with unchanged modeling duration
  and a changed enforcer, whose target is unchanged and whose profile records a non-zero
  duration (so that no earlier check matches), gets the silent skip: no rejection and
  nothing written.
\<close>

theorem update_gate_first_match_wins:
  "ignoreUpdate newVp oldAp w = gateAnswer (validateUpdate_spec newVp oldAp) newVp w \<and>
   (Spec_Target (VP_Spec newVp) = APSpec_Target (AP_Spec oldAp) \<and>
    BM_ModelingDuration (APSpec_BehaviorModeling (AP_Spec oldAp)) \<noteq> 0 \<and>
    Policy_Mode (Spec_Policy (VP_Spec newVp)) = DefenseInDepthMode \<and>
    Status_Phase (VP_Status newVp) = VarmorPolicyModeling \<and>
    Policy_DefenseInDepth_ModelingDuration (Spec_Policy (VP_Spec newVp)) =
      BM_ModelingDuration (APSpec_BehaviorModeling (AP_Spec oldAp)) \<and>
    Policy_Enforcer (Spec_Policy (VP_Spec newVp)) \<noteq>
      Profile_Enforcer (APSpec_Profile (AP_Spec oldAp)) \<longrightarrow>
    ignoreUpdate newVp oldAp w = (True, None, newVp, w))"
proof (intro conjI impI)
  show "ignoreUpdate newVp oldAp w = gateAnswer (validateUpdate_spec newVp oldAp) newVp w"
    by (rule ignoreUpdate_gateAnswer)
next
  assume a: "Spec_Target (VP_Spec newVp) = APSpec_Target (AP_Spec oldAp) \<and>
    BM_ModelingDuration (APSpec_BehaviorModeling (AP_Spec oldAp)) \<noteq> 0 \<and>
    Policy_Mode (Spec_Policy (VP_Spec newVp)) = DefenseInDepthMode \<and>
    Status_Phase (VP_Status newVp) = VarmorPolicyModeling \<and>
    Policy_DefenseInDepth_ModelingDuration (Spec_Policy (VP_Spec newVp)) =
      BM_ModelingDuration (APSpec_BehaviorModeling (AP_Spec oldAp)) \<and>
    Policy_Enforcer (Spec_Policy (VP_Spec newVp)) \<noteq>
      Profile_Enforcer (APSpec_Profile (AP_Spec oldAp))"
  then have "validateUpdate_spec newVp oldAp = Some NoopDuration"
    by (intro validate_NoopDuration) simp_all
  then show "ignoreUpdate newVp oldAp w = (True, None, newVp, w)"
    by (simp add: ignoreUpdate_gateAnswer)
qed

theorem update_gate_first_match_wins_witness:
  "Policy_Enforcer (Spec_Policy (VP_Spec ex_vp_modeling_bpf)) \<noteq>
     Profile_Enforcer (APSpec_Profile (AP_Spec ex_ap_modeling)) \<and>
   validateUpdate_spec ex_vp_modeling_bpf ex_ap_modeling = Some NoopDuration \<and>
   ignoreUpdate ex_vp_modeling_bpf ex_ap_modeling ex_world =
     (True, None, ex_vp_modeling_bpf, ex_world)"
  using update_gate_first_match_wins [of ex_vp_modeling_bpf ex_ap_modeling ex_world]
  by (simp add: ex_defs validateUpdate_spec_cases type_consts)

text \<open>
  C4 as stated fails when the target changed as well: the policy is in behavior-modeling
  mode, in phase \<open>Modeling\<close>, its duration is unchanged and its enforcer changed, and the
  gate writes the \<open>Forbidden\<close> condition of the target check.
\<close>

theorem update_gate_skip_preempted_by_target_change:
  "Policy_Mode (Spec_Policy (VP_Spec ex_vp_modeling_bpf_moved)) = DefenseInDepthMode \<and>
   Status_Phase (VP_Status ex_vp_modeling_bpf_moved) = VarmorPolicyModeling \<and>
   Policy_DefenseInDepth_ModelingDuration (Spec_Policy (VP_Spec ex_vp_modeling_bpf_moved)) =
     BM_ModelingDuration (APSpec_BehaviorModeling (AP_Spec ex_ap_modeling)) \<and>
   Policy_Enforcer (Spec_Policy (VP_Spec ex_vp_modeling_bpf_moved)) \<noteq>
     Profile_Enforcer (APSpec_Profile (AP_Spec ex_ap_modeling)) \<and>
   Status_Conditions (VP_Status (fst (snd (snd
     (ignoreUpdate ex_vp_modeling_bpf_moved ex_ap_modeling ex_world))))) =
     [ex_created, ex_forbidden] \<and>
   calls (snd (snd (snd (ignoreUpdate ex_vp_modeling_bpf_moved ex_ap_modeling ex_world)))) =
     [PolicyUpdateStatus ''demo''
        (fst (snd (snd (ignoreUpdate ex_vp_modeling_bpf_moved ex_ap_modeling ex_world))))]"
  by (simp add: ex_defs run_defs)

section \<open>Update gate: the target is immutable\<close>

text \<open>
  C5. An update whose target differs from the stored profile's \<open>spec.target\<close> is rejected
  before anything is done to the profile: the handler's only request is one status
  update of the policy, so no profile write is sent and the profile's target stays as it
  is; the policy object of that status update has its spec unchanged and carries a
  condition of type \<open>Updated\<close> with status \<open>False\<close> and reason \<open>Forbidden\<close>. The handler
  returns the answer of that status update. Both controllers.
\<close>

theorem target_change_rejected_before_profile_mutation:
  assumes "Spec_Target (VP_Spec newVp) \<noteq> APSpec_Target (AP_Spec oldAp)"
  shows "(\<exists>vp'. handleUpdateVarmorPolicy c newVp oldAp w =
            (nextAnswer w, vp',
             w\<lparr>faults := tl (faults w),
               calls := calls w @ [PolicyUpdateStatus (VP_Namespace newVp) vp']\<rparr>) \<and>
            VP_Spec vp' = VP_Spec newVp \<and>
            (\<exists>cd. cd \<in> set (Status_Conditions (VP_Status vp')) \<and>
               Cond_Type cd = VarmorPolicyUpdated \<and> Cond_Status cd = ConditionFalse \<and>
               Cond_Reason cd = ''Forbidden'')) \<and>
         (\<exists>vp'. handleUpdateVarmorClusterPolicy c newVp oldAp w =
            (nextAnswer w, vp',
             w\<lparr>faults := tl (faults w),
               calls := calls w @ [ClusterPolicyUpdateStatus vp']\<rparr>) \<and>
            VP_Spec vp' = VP_Spec newVp \<and>
            (\<exists>cd. cd \<in> set (Status_Conditions (VP_Status vp')) \<and>
               Cond_Type cd = VarmorPolicyUpdated \<and> Cond_Status cd = ConditionFalse \<and>
               Cond_Reason cd = ''Forbidden''))"
proof -
  define V where "V = setPolicyStatus (now w) newVp [] True VarmorPolicyUnchanged
        VarmorPolicyUpdated ConditionFalse ''Forbidden'' (forbiddenMessage TargetChange)"
  define CV where "CV = setPolicyStatus (now w) newVp [] True VarmorPolicyUnchanged
        VarmorPolicyUpdated ConditionFalse ''Forbidden'' (cluster_forbiddenMessage TargetChange)"
  have v: "validateUpdate_spec newVp oldAp = Some TargetChange"
    using assms by (rule validate_TargetChange)
  have g: "ignoreUpdate newVp oldAp w =
             (True, nextAnswer w, V,
              w\<lparr>faults := tl (faults w),
                calls := calls w @ [PolicyUpdateStatus (VP_Namespace newVp) V]\<rparr>)"
    unfolding ignoreUpdate_gateAnswer v V_def
    using gateAnswer_reject[of TargetChange newVp w] by simp
  have cg: "cluster_ignoreUpdate newVp oldAp w =
             (True, nextAnswer w, CV,
              w\<lparr>faults := tl (faults w), calls := calls w @ [ClusterPolicyUpdateStatus CV]\<rparr>)"
    unfolding cluster_ignoreUpdate_gateAnswer v CV_def
    using cluster_gateAnswer_reject[of TargetChange newVp w] by simp
  have h: "handleUpdateVarmorPolicy c newVp oldAp w =
             (nextAnswer w, V,
              w\<lparr>faults := tl (faults w),
                calls := calls w @ [PolicyUpdateStatus (VP_Namespace newVp) V]\<rparr>)"
    using handleUpdate_ignored[of newVp oldAp w c] by (simp add: g)
  have ch: "handleUpdateVarmorClusterPolicy c newVp oldAp w =
             (nextAnswer w, CV,
              w\<lparr>faults := tl (faults w), calls := calls w @ [ClusterPolicyUpdateStatus CV]\<rparr>)"
    using cluster_handleUpdate_ignored[of newVp oldAp w c] by (simp add: cg)
  have s: "VP_Spec V = VP_Spec newVp" "VP_Spec CV = VP_Spec newVp"
    by (simp_all add: V_def CV_def setPolicyStatus_frame)
  have e: "\<exists>cd. cd \<in> set (Status_Conditions (VP_Status V)) \<and>
               Cond_Type cd = VarmorPolicyUpdated \<and> Cond_Status cd = ConditionFalse \<and>
               Cond_Reason cd = ''Forbidden''"
    using setPolicyStatus_has_Updated[of "now w" newVp "[]" True VarmorPolicyUnchanged
        ConditionFalse "''Forbidden''" "forbiddenMessage TargetChange"]
    unfolding V_def by blast
  have ce: "\<exists>cd. cd \<in> set (Status_Conditions (VP_Status CV)) \<and>
               Cond_Type cd = VarmorPolicyUpdated \<and> Cond_Status cd = ConditionFalse \<and>
               Cond_Reason cd = ''Forbidden''"
    using setPolicyStatus_has_Updated[of "now w" newVp "[]" True VarmorPolicyUnchanged
        ConditionFalse "''Forbidden''" "cluster_forbiddenMessage TargetChange"]
    unfolding CV_def by blast
  show ?thesis
  proof (rule conjI)
    show "\<exists>vp'. handleUpdateVarmorPolicy c newVp oldAp w =
            (nextAnswer w, vp',
             w\<lparr>faults := tl (faults w),
               calls := calls w @ [PolicyUpdateStatus (VP_Namespace newVp) vp']\<rparr>) \<and>
            VP_Spec vp' = VP_Spec newVp \<and>
            (\<exists>cd. cd \<in> set (Status_Conditions (VP_Status vp')) \<and>
               Cond_Type cd = VarmorPolicyUpdated \<and> Cond_Status cd = ConditionFalse \<and>
               Cond_Reason cd = ''Forbidden'')"
      using h s(1) e by blast
    show "\<exists>vp'. handleUpdateVarmorClusterPolicy c newVp oldAp w =
            (nextAnswer w, vp',
             w\<lparr>faults := tl (faults w),
               calls := calls w @ [ClusterPolicyUpdateStatus vp']\<rparr>) \<and>
            VP_Spec vp' = VP_Spec newVp \<and>
            (\<exists>cd. cd \<in> set (Status_Conditions (VP_Status vp')) \<and>
               Cond_Type cd = VarmorPolicyUpdated \<and> Cond_Status cd = ConditionFalse \<and>
               Cond_Reason cd = ''Forbidden'')"
      using ch s(2) ce by blast
  qed
qed

theorem target_change_rejected_before_profile_mutation_witness:
  "Spec_Target (VP_Spec ex_vp_moved) \<noteq> APSpec_Target (AP_Spec ex_ap) \<and>
   fst (handleUpdateVarmorPolicy ex_controller ex_vp_moved ex_ap ex_world) = None \<and>
   Status_Conditions (VP_Status (fst (snd
     (handleUpdateVarmorPolicy ex_controller ex_vp_moved ex_ap ex_world)))) =
     [ex_created, ex_forbidden] \<and>
   length (calls (snd (snd (handleUpdateVarmorPolicy ex_controller ex_vp_moved ex_ap ex_world)))) = 1 \<and>
   length (calls (snd (snd (handleUpdateVarmorClusterPolicy ex_controller ex_vp_moved ex_ap ex_world)))) = 1"
  using target_change_rejected_before_profile_mutation [of ex_vp_moved ex_ap ex_controller ex_world]
  by (simp add: ex_defs handleUpdateVarmorPolicy_def ignoreUpdate_def
      handleUpdateVarmorClusterPolicy_def cluster_ignoreUpdate_def Let_def type_consts
      updateVarmorPolicyStatus_eq updateVarmorClusterPolicyStatus_eq setPolicyStatus_def
      nextAnswer_def)

section \<open>Update handler: equal profile specs\<close>

text \<open>
  C6. A validated update that reaches the comparison of the profile specs (the
  \<open>Pending\<close>/\<open>Updated\<close> status write succeeded and the generator returned a profile) and
  finds the rebuilt spec equal to the existing one sends, after that status write, only
  the status-refresh message for the key: no call on the profile, no workload-restart
  task. It returns success. Both controllers.
\<close>

theorem equal_spec_only_refreshes_status:
  "(\<not> fst (ignoreUpdate newVp oldAp w) \<and> nextAnswer w = None \<and>
    GenerateProfile c (Spec_Policy (VP_Spec newVp))
      (Profile_Name (APSpec_Profile (AP_Spec oldAp))) False [] = Inr p \<and>
    newApSpecOf newVp oldAp p = AP_Spec oldAp \<longrightarrow>
      (\<exists>vp'. handleUpdateVarmorPolicy c newVp oldAp w =
         (None, vp',
          w\<lparr>faults := tl (faults w),
            calls := calls w @
              [PolicyUpdateStatus (VP_Namespace newVp) vp',
               SendUpdateStatusCh (VP_Namespace newVp @ ''/'' @ VP_Name newVp)],
            UpdateDesiredNumber := True\<rparr>))) \<and>
   (\<not> fst (cluster_ignoreUpdate newVp oldAp w) \<and> nextAnswer w = None \<and>
    GenerateProfile c (Spec_Policy (VP_Spec newVp))
      (Profile_Name (APSpec_Profile (AP_Spec oldAp))) False [] = Inr p \<and>
    (AP_Spec oldAp)\<lparr>APSpec_Profile := p\<rparr> = AP_Spec oldAp \<longrightarrow>
      (\<exists>vp'. handleUpdateVarmorClusterPolicy c newVp oldAp w =
         (None, vp',
          w\<lparr>faults := tl (faults w),
            calls := calls w @
              [ClusterPolicyUpdateStatus vp', SendUpdateStatusCh (VP_Name newVp)],
            UpdateDesiredNumber := True\<rparr>)))"
proof (intro conjI impI)
  assume "\<not> fst (ignoreUpdate newVp oldAp w) \<and> nextAnswer w = None \<and>
    GenerateProfile c (Spec_Policy (VP_Spec newVp))
      (Profile_Name (APSpec_Profile (AP_Spec oldAp))) False [] = Inr p \<and>
    newApSpecOf newVp oldAp p = AP_Spec oldAp"
  then have "handleUpdateVarmorPolicy c newVp oldAp w =
     (None,
      setPolicyStatus (now w) newVp [] True VarmorPolicyPending VarmorPolicyUpdated
        ConditionTrue [] [],
      w\<lparr>faults := tl (faults w),
        calls := calls w @
          [PolicyUpdateStatus (VP_Namespace newVp)
             (setPolicyStatus (now w) newVp [] True VarmorPolicyPending VarmorPolicyUpdated
                ConditionTrue [] []),
           SendUpdateStatusCh (VP_Namespace newVp @ ''/'' @ VP_Name newVp)],
        UpdateDesiredNumber := True\<rparr>)"
    by (intro handleUpdate_generated) blast+
  then show "\<exists>vp'. handleUpdateVarmorPolicy c newVp oldAp w =
         (None, vp',
          w\<lparr>faults := tl (faults w),
            calls := calls w @
              [PolicyUpdateStatus (VP_Namespace newVp) vp',
               SendUpdateStatusCh (VP_Namespace newVp @ ''/'' @ VP_Name newVp)],
            UpdateDesiredNumber := True\<rparr>)"
    by (rule exI)
next
  assume "\<not> fst (cluster_ignoreUpdate newVp oldAp w) \<and> nextAnswer w = None \<and>
    GenerateProfile c (Spec_Policy (VP_Spec newVp))
      (Profile_Name (APSpec_Profile (AP_Spec oldAp))) False [] = Inr p \<and>
    (AP_Spec oldAp)\<lparr>APSpec_Profile := p\<rparr> = AP_Spec oldAp"
  then have "handleUpdateVarmorClusterPolicy c newVp oldAp w =
     (None,
      setPolicyStatus (now w) newVp [] True VarmorPolicyPending VarmorPolicyUpdated
        ConditionTrue [] [],
      w\<lparr>faults := tl (faults w),
        calls := calls w @
          [ClusterPolicyUpdateStatus
             (setPolicyStatus (now w) newVp [] True VarmorPolicyPending VarmorPolicyUpdated
                ConditionTrue [] []),
           SendUpdateStatusCh (VP_Name newVp)],
        UpdateDesiredNumber := True\<rparr>)"
    by (intro cluster_handleUpdate_generated) blast+
  then show "\<exists>vp'. handleUpdateVarmorClusterPolicy c newVp oldAp w =
         (None, vp',
          w\<lparr>faults := tl (faults w),
            calls := calls w @
              [ClusterPolicyUpdateStatus vp', SendUpdateStatusCh (VP_Name newVp)],
            UpdateDesiredNumber := True\<rparr>)"
    by (rule exI)
qed

theorem equal_spec_only_refreshes_status_witness:
  "\<not> fst (ignoreUpdate ex_vp_relabelled ex_ap ex_world) \<and>
   \<not> fst (cluster_ignoreUpdate ex_vp_relabelled ex_ap ex_world) \<and>
   nextAnswer ex_world = None \<and>
   GenerateProfile ex_controller (Spec_Policy (VP_Spec ex_vp_relabelled))
      (Profile_Name (APSpec_Profile (AP_Spec ex_ap))) False [] =
     Inr (APSpec_Profile (AP_Spec ex_ap)) \<and>
   newApSpecOf ex_vp_relabelled ex_ap (APSpec_Profile (AP_Spec ex_ap)) = AP_Spec ex_ap \<and>
   fst (handleUpdateVarmorPolicy ex_controller ex_vp_relabelled ex_ap ex_world) = None \<and>
   calls (snd (snd (handleUpdateVarmorPolicy ex_controller ex_vp_relabelled ex_ap ex_world))) =
     [PolicyUpdateStatus ''demo''
        (fst (snd (handleUpdateVarmorPolicy ex_controller ex_vp_relabelled ex_ap ex_world))),
      SendUpdateStatusCh ''demo/app''] \<and>
   calls (snd (snd (handleUpdateVarmorClusterPolicy ex_controller ex_vp_relabelled ex_ap ex_world))) =
     [ClusterPolicyUpdateStatus
        (fst (snd (handleUpdateVarmorClusterPolicy ex_controller ex_vp_relabelled ex_ap ex_world))),
      SendUpdateStatusCh ''app'']"
  using equal_spec_only_refreshes_status
    [of ex_vp_relabelled ex_ap ex_world ex_controller "APSpec_Profile (AP_Spec ex_ap)"]
  by (simp add: ex_defs run_defs newApSpecOf_def send_def)

section \<open>Update handler: unchanged modeling duration\<close>

text \<open>
  C7 (as amended). For a policy in behavior-modeling mode, in phase \<open>Modeling\<close>, whose
  requested modeling duration equals the one the profile records, whose target equals
  the profile's and whose profile records a non-zero duration, the update handler
  sends nothing (no status write, no profile write) and returns success.
\<close>

theorem modeling_unchanged_duration_is_noop:
  assumes "Policy_Mode (Spec_Policy (VP_Spec newVp)) = DefenseInDepthMode"
    and "Status_Phase (VP_Status newVp) = VarmorPolicyModeling"
    and "Policy_DefenseInDepth_ModelingDuration (Spec_Policy (VP_Spec newVp)) =
           BM_ModelingDuration (APSpec_BehaviorModeling (AP_Spec oldAp))"
    and "Spec_Target (VP_Spec newVp) = APSpec_Target (AP_Spec oldAp)"
    and "BM_ModelingDuration (APSpec_BehaviorModeling (AP_Spec oldAp)) \<noteq> 0"
  shows "handleUpdateVarmorPolicy c newVp oldAp w = (None, newVp, w)"
proof -
  have "validateUpdate_spec newVp oldAp = Some NoopDuration"
    using assms by (intro validate_NoopDuration)
  then have "ignoreUpdate newVp oldAp w = (True, None, newVp, w)"
    by (simp add: ignoreUpdate_gateAnswer)
  then show ?thesis by (simp add: handleUpdateVarmorPolicy_def)
qed

theorem modeling_unchanged_duration_is_noop_witness:
  "Policy_Mode (Spec_Policy (VP_Spec ex_vp_modeling)) = DefenseInDepthMode \<and>
   Status_Phase (VP_Status ex_vp_modeling) = VarmorPolicyModeling \<and>
   Policy_DefenseInDepth_ModelingDuration (Spec_Policy (VP_Spec ex_vp_modeling)) =
     BM_ModelingDuration (APSpec_BehaviorModeling (AP_Spec ex_ap_modeling)) \<and>
   Spec_Target (VP_Spec ex_vp_modeling) = APSpec_Target (AP_Spec ex_ap_modeling) \<and>
   BM_ModelingDuration (APSpec_BehaviorModeling (AP_Spec ex_ap_modeling)) \<noteq> 0 \<and>
   handleUpdateVarmorPolicy ex_controller ex_vp_modeling ex_ap_modeling ex_world =
     (None, ex_vp_modeling, ex_world)"
  using modeling_unchanged_duration_is_noop [of ex_vp_modeling ex_ap_modeling ex_controller ex_world]
  by (simp add: ex_defs type_consts)

text \<open>
  C7 as stated fails when the target of such a policy was edited: the handler writes
  the policy's status.
\<close>

theorem modeling_unchanged_duration_target_moved_writes_status:
  "Policy_Mode (Spec_Policy (VP_Spec ex_vp_modeling_moved)) = DefenseInDepthMode \<and>
   Status_Phase (VP_Status ex_vp_modeling_moved) = VarmorPolicyModeling \<and>
   Policy_DefenseInDepth_ModelingDuration (Spec_Policy (VP_Spec ex_vp_modeling_moved)) =
     BM_ModelingDuration (APSpec_BehaviorModeling (AP_Spec ex_ap_modeling)) \<and>
   Status_Conditions (VP_Status (fst (snd
     (handleUpdateVarmorPolicy ex_controller ex_vp_modeling_moved ex_ap_modeling ex_world)))) =
     [ex_created, ex_forbidden] \<and>
   Status_Ready (VP_Status (fst (snd
     (handleUpdateVarmorPolicy ex_controller ex_vp_modeling_moved ex_ap_modeling ex_world)))) = False \<and>
   Status_Ready (VP_Status ex_vp_modeling_moved) \<and>
   calls (snd (snd
     (handleUpdateVarmorPolicy ex_controller ex_vp_modeling_moved ex_ap_modeling ex_world))) =
     [PolicyUpdateStatus ''demo'' (fst (snd
        (handleUpdateVarmorPolicy ex_controller ex_vp_modeling_moved ex_ap_modeling ex_world)))]"
  by (simp add: ex_defs run_defs)

section \<open>Worker loop: the retry ceiling\<close>

text \<open>
  C8. A key whose sync fails six times in a row, starting with a retry count of zero, is
  re-added with rate limiting five times; the sixth failure is handed to the error
  reporter once, the key is forgotten and not re-added.
\<close>

theorem retry_ceiling:
  assumes "queue_NumRequeues q key = 0" and "length es = 6"
  shows "ops (failingSyncs es key q) =
           ops q @ replicate 5 (AddRateLimited key) @ [HandleError (last es), Forget key] \<and>
         queue_NumRequeues (failingSyncs es key q) key = 0"
proof -
  from assms(2) obtain a b c d e f where es: "es = [a, b, c, d, e, f]"
    using length_six by blast
  show ?thesis using assms(1) unfolding es
    by (simp add: handleErr_def queue_NumRequeues_def queue_AddRateLimited_def queue_Forget_def
        utilruntime_HandleError_def maxRetries_def numeral_eq_Suc)
qed

theorem retry_ceiling_witness:
  "queue_NumRequeues ex_queue ''demo/app'' = 0 \<and> length ex_six_errors = 6 \<and>
   ops (failingSyncs ex_six_errors ''demo/app'' ex_queue) =
     [AddRateLimited ''demo/app'', AddRateLimited ''demo/app'', AddRateLimited ''demo/app'',
      AddRateLimited ''demo/app'', AddRateLimited ''demo/app'',
      HandleError (Failure ''e6''), Forget ''demo/app'']"
  using retry_ceiling [of ex_queue "''demo/app''" ex_six_errors]
  by (simp add: ex_defs queue_NumRequeues_def numeral_eq_Suc)

section \<open>Update gate: the ready flag on rejection\<close>

text \<open>
  C9. Of the rejections of the update gate, the one of a behavior-modeling policy in
  phase \<open>Completed\<close> or \<open>Protecting\<close> leaves \<open>status.ready\<close> of the policy as it was; each
  of the others (target change, switch into or out of behavior-modeling, enforcer
  switch) writes the \<open>Forbidden\<close> condition on a policy object whose \<open>status.ready\<close> is
  false. Both controllers.
\<close>

theorem ready_flag_on_rejection:
  "(validateUpdate_spec newVp oldAp = Some CompletedLock \<longrightarrow>
      (\<exists>vp'. ignoreUpdate newVp oldAp w =
         (True, nextAnswer w, vp',
          w\<lparr>faults := tl (faults w),
            calls := calls w @ [PolicyUpdateStatus (VP_Namespace newVp) vp']\<rparr>) \<and>
         Status_Ready (VP_Status vp') = Status_Ready (VP_Status newVp)) \<and>
      (\<exists>vp'. cluster_ignoreUpdate newVp oldAp w =
         (True, nextAnswer w, vp',
          w\<lparr>faults := tl (faults w), calls := calls w @ [ClusterPolicyUpdateStatus vp']\<rparr>) \<and>
         Status_Ready (VP_Status vp') = Status_Ready (VP_Status newVp))) \<and>
   (validateUpdate_spec newVp oldAp \<in>
      {Some TargetChange, Some SwitchIntoModeling, Some SwitchOutOfModeling, Some EnforcerMismatch} \<longrightarrow>
      (\<exists>vp'. ignoreUpdate newVp oldAp w =
         (True, nextAnswer w, vp',
          w\<lparr>faults := tl (faults w),
            calls := calls w @ [PolicyUpdateStatus (VP_Namespace newVp) vp']\<rparr>) \<and>
         Status_Ready (VP_Status vp') = False) \<and>
      (\<exists>vp'. cluster_ignoreUpdate newVp oldAp w =
         (True, nextAnswer w, vp',
          w\<lparr>faults := tl (faults w), calls := calls w @ [ClusterPolicyUpdateStatus vp']\<rparr>) \<and>
         Status_Ready (VP_Status vp') = False))"
proof (intro conjI impI)
  assume v: "validateUpdate_spec newVp oldAp = Some CompletedLock"
  show "\<exists>vp'. ignoreUpdate newVp oldAp w =
         (True, nextAnswer w, vp',
          w\<lparr>faults := tl (faults w),
            calls := calls w @ [PolicyUpdateStatus (VP_Namespace newVp) vp']\<rparr>) \<and>
         Status_Ready (VP_Status vp') = Status_Ready (VP_Status newVp)"
    using ignoreUpdate_reject[OF v, of w] by (simp add: setPolicyStatus_Ready)
  show "\<exists>vp'. cluster_ignoreUpdate newVp oldAp w =
         (True, nextAnswer w, vp',
          w\<lparr>faults := tl (faults w), calls := calls w @ [ClusterPolicyUpdateStatus vp']\<rparr>) \<and>
         Status_Ready (VP_Status vp') = Status_Ready (VP_Status newVp)"
    using cluster_ignoreUpdate_reject[OF v, of w] by (simp add: setPolicyStatus_Ready)
next
  assume "validateUpdate_spec newVp oldAp \<in>
      {Some TargetChange, Some SwitchIntoModeling, Some SwitchOutOfModeling, Some EnforcerMismatch}"
  then obtain k where v: "validateUpdate_spec newVp oldAp = Some k"
    and k: "k \<noteq> NoopDuration" "k \<noteq> CompletedLock" by auto
  show "\<exists>vp'. ignoreUpdate newVp oldAp w =
         (True, nextAnswer w, vp',
          w\<lparr>faults := tl (faults w),
            calls := calls w @ [PolicyUpdateStatus (VP_Namespace newVp) vp']\<rparr>) \<and>
         Status_Ready (VP_Status vp') = False"
    using ignoreUpdate_reject[OF v k(1), of w] k(2) by (simp add: setPolicyStatus_Ready)
  show "\<exists>vp'. cluster_ignoreUpdate newVp oldAp w =
         (True, nextAnswer w, vp',
          w\<lparr>faults := tl (faults w), calls := calls w @ [ClusterPolicyUpdateStatus vp']\<rparr>) \<and>
         Status_Ready (VP_Status vp') = False"
    using cluster_ignoreUpdate_reject[OF v k(1), of w] k(2) by (simp add: setPolicyStatus_Ready)
qed

theorem ready_flag_on_rejection_witness:
  "validateUpdate_spec ex_vp_completed ex_ap_modeling = Some CompletedLock \<and>
   Status_Ready (VP_Status ex_vp_completed) \<and>
   Status_Ready (VP_Status (fst (snd (snd (ignoreUpdate ex_vp_completed ex_ap_modeling ex_world))))) \<and>
   Status_Ready (VP_Status (fst (snd (snd
     (cluster_ignoreUpdate ex_vp_completed ex_ap_modeling ex_world))))) \<and>
   validateUpdate_spec ex_vp_moved ex_ap = Some TargetChange \<and>
   Status_Ready (VP_Status ex_vp_moved) \<and>
   Status_Ready (VP_Status (fst (snd (snd (ignoreUpdate ex_vp_moved ex_ap ex_world))))) = False \<and>
   Status_Ready (VP_Status (fst (snd (snd (cluster_ignoreUpdate ex_vp_moved ex_ap ex_world))))) = False"
  using ready_flag_on_rejection [of ex_vp_completed ex_ap_modeling ex_world]
        ready_flag_on_rejection [of ex_vp_moved ex_ap ex_world]
  by (simp add: ex_defs validateUpdate_spec_cases run_defs)

section \<open>Update handler: the generator fails\<close>

text \<open>
  C10. When the generator fails during an update, the handler sends a second status
  update whose policy object has the conditions of the first one, among them the
  \<open>Updated\<close>/\<open>True\<close> condition, followed by a new condition \<open>Created\<close>/\<open>False\<close> with reason
  \<open>Error\<close> and the generator's message, phase \<open>Error\<close> and \<open>ready\<close> false; the handler
  returns the store's answer to that second status update. Both controllers.
\<close>

theorem generation_failure_on_update:
  "(\<not> fst (ignoreUpdate newVp oldAp w) \<and> nextAnswer w = None \<and>
    GenerateProfile c (Spec_Policy (VP_Spec newVp))
      (Profile_Name (APSpec_Profile (AP_Spec oldAp))) False [] = Inl msg \<longrightarrow>
      (\<exists>vp1 vp2. handleUpdateVarmorPolicy c newVp oldAp w =
         (nextAnswer (w\<lparr>faults := tl (faults w)\<rparr>), vp2,
          w\<lparr>faults := tl (tl (faults w)),
            calls := calls w @ [PolicyUpdateStatus (VP_Namespace newVp) vp1,
                                PolicyUpdateStatus (VP_Namespace newVp) vp2]\<rparr>) \<and>
         Status_Conditions (VP_Status vp2) =
           Status_Conditions (VP_Status vp1) @
             [\<lparr>Cond_Type = VarmorPolicyCreated, Cond_Status = ConditionFalse,
               Cond_LastTransitionTime = now w, Cond_Reason = ''Error'', Cond_Message = msg\<rparr>] \<and>
         (\<exists>cd. cd \<in> set (Status_Conditions (VP_Status vp1)) \<and>
               Cond_Type cd = VarmorPolicyUpdated \<and> Cond_Status cd = ConditionTrue) \<and>
         Status_Phase (VP_Status vp2) = VarmorPolicyError \<and>
         Status_Ready (VP_Status vp2) = False)) \<and>
   (\<not> fst (cluster_ignoreUpdate newVp oldAp w) \<and> nextAnswer w = None \<and>
    GenerateProfile c (Spec_Policy (VP_Spec newVp))
      (Profile_Name (APSpec_Profile (AP_Spec oldAp))) False [] = Inl msg \<longrightarrow>
      (\<exists>vp1 vp2. handleUpdateVarmorClusterPolicy c newVp oldAp w =
         (nextAnswer (w\<lparr>faults := tl (faults w)\<rparr>), vp2,
          w\<lparr>faults := tl (tl (faults w)),
            calls := calls w @ [ClusterPolicyUpdateStatus vp1, ClusterPolicyUpdateStatus vp2]\<rparr>) \<and>
         Status_Conditions (VP_Status vp2) =
           Status_Conditions (VP_Status vp1) @
             [\<lparr>Cond_Type = VarmorPolicyCreated, Cond_Status = ConditionFalse,
               Cond_LastTransitionTime = now w, Cond_Reason = ''Error'', Cond_Message = msg\<rparr>] \<and>
         (\<exists>cd. cd \<in> set (Status_Conditions (VP_Status vp1)) \<and>
               Cond_Type cd = VarmorPolicyUpdated \<and> Cond_Status cd = ConditionTrue) \<and>
         Status_Phase (VP_Status vp2) = VarmorPolicyError \<and>
         Status_Ready (VP_Status vp2) = False))"
proof (intro conjI impI)
  define vp1 where "vp1 = setPolicyStatus (now w) newVp [] True VarmorPolicyPending
    VarmorPolicyUpdated ConditionTrue [] []"
  define vp2 where "vp2 = setPolicyStatus (now w) vp1 [] True VarmorPolicyError
    VarmorPolicyCreated ConditionFalse ''Error'' msg"
  note st = generator_failure_status[OF vp1_def vp2_def]
  {
    assume a: "\<not> fst (ignoreUpdate newVp oldAp w) \<and> nextAnswer w = None \<and>
      GenerateProfile c (Spec_Policy (VP_Spec newVp))
        (Profile_Name (APSpec_Profile (AP_Spec oldAp))) False [] = Inl msg"
    have "handleUpdateVarmorPolicy c newVp oldAp w =
         (nextAnswer (w\<lparr>faults := tl (faults w)\<rparr>), vp2,
          w\<lparr>faults := tl (tl (faults w)),
            calls := calls w @ [PolicyUpdateStatus (VP_Namespace newVp) vp1,
                                PolicyUpdateStatus (VP_Namespace newVp) vp2]\<rparr>)"
      unfolding vp2_def vp1_def using a by (intro handleUpdate_generator_failed) blast+
    with st show "\<exists>vp1 vp2. handleUpdateVarmorPolicy c newVp oldAp w =
         (nextAnswer (w\<lparr>faults := tl (faults w)\<rparr>), vp2,
          w\<lparr>faults := tl (tl (faults w)),
            calls := calls w @ [PolicyUpdateStatus (VP_Namespace newVp) vp1,
                                PolicyUpdateStatus (VP_Namespace newVp) vp2]\<rparr>) \<and>
         Status_Conditions (VP_Status vp2) =
           Status_Conditions (VP_Status vp1) @
             [\<lparr>Cond_Type = VarmorPolicyCreated, Cond_Status = ConditionFalse,
               Cond_LastTransitionTime = now w, Cond_Reason = ''Error'', Cond_Message = msg\<rparr>] \<and>
         (\<exists>cd. cd \<in> set (Status_Conditions (VP_Status vp1)) \<and>
               Cond_Type cd = VarmorPolicyUpdated \<and> Cond_Status cd = ConditionTrue) \<and>
         Status_Phase (VP_Status vp2) = VarmorPolicyError \<and>
         Status_Ready (VP_Status vp2) = False"
      by blast
  }
  {
    assume a: "\<not> fst (cluster_ignoreUpdate newVp oldAp w) \<and> nextAnswer w = None \<and>
      GenerateProfile c (Spec_Policy (VP_Spec newVp))
        (Profile_Name (APSpec_Profile (AP_Spec oldAp))) False [] = Inl msg"
    have "handleUpdateVarmorClusterPolicy c newVp oldAp w =
         (nextAnswer (w\<lparr>faults := tl (faults w)\<rparr>), vp2,
          w\<lparr>faults := tl (tl (faults w)),
            calls := calls w @ [ClusterPolicyUpdateStatus vp1, ClusterPolicyUpdateStatus vp2]\<rparr>)"
      unfolding vp2_def vp1_def using a by (intro cluster_handleUpdate_generator_failed) blast+
    with st show "\<exists>vp1 vp2. handleUpdateVarmorClusterPolicy c newVp oldAp w =
         (nextAnswer (w\<lparr>faults := tl (faults w)\<rparr>), vp2,
          w\<lparr>faults := tl (tl (faults w)),
            calls := calls w @ [ClusterPolicyUpdateStatus vp1, ClusterPolicyUpdateStatus vp2]\<rparr>) \<and>
         Status_Conditions (VP_Status vp2) =
           Status_Conditions (VP_Status vp1) @
             [\<lparr>Cond_Type = VarmorPolicyCreated, Cond_Status = ConditionFalse,
               Cond_LastTransitionTime = now w, Cond_Reason = ''Error'', Cond_Message = msg\<rparr>] \<and>
         (\<exists>cd. cd \<in> set (Status_Conditions (VP_Status vp1)) \<and>
               Cond_Type cd = VarmorPolicyUpdated \<and> Cond_Status cd = ConditionTrue) \<and>
         Status_Phase (VP_Status vp2) = VarmorPolicyError \<and>
         Status_Ready (VP_Status vp2) = False"
      by blast
  }
qed

theorem generation_failure_on_update_witness:
  "\<not> fst (ignoreUpdate ex_vp_bad ex_ap ex_world) \<and>
   \<not> fst (cluster_ignoreUpdate ex_vp_bad ex_ap ex_world_failing_second) \<and>
   nextAnswer ex_world = None \<and> nextAnswer ex_world_failing_second = None \<and>
   GenerateProfile ex_controller (Spec_Policy (VP_Spec ex_vp_bad))
      (Profile_Name (APSpec_Profile (AP_Spec ex_ap))) False [] = Inl ''unknown rule'' \<and>
   fst (handleUpdateVarmorPolicy ex_controller ex_vp_bad ex_ap ex_world) = None \<and>
   Status_Conditions (VP_Status (fst (snd
     (handleUpdateVarmorPolicy ex_controller ex_vp_bad ex_ap ex_world)))) =
     [ex_created, ex_updated\<lparr>Cond_LastTransitionTime := 7\<rparr>, ex_generation_error] \<and>
   fst (handleUpdateVarmorClusterPolicy ex_controller ex_vp_bad ex_ap ex_world_failing_second) =
     Some (Failure ''conflict'') \<and>
   Status_Conditions (VP_Status (fst (snd
     (handleUpdateVarmorClusterPolicy ex_controller ex_vp_bad ex_ap ex_world_failing_second)))) =
     [ex_created, ex_updated\<lparr>Cond_LastTransitionTime := 7\<rparr>, ex_generation_error]"
  using generation_failure_on_update
          [of ex_vp_bad ex_ap ex_world ex_controller "''unknown rule''"]
        generation_failure_on_update
          [of ex_vp_bad ex_ap ex_world_failing_second ex_controller "''unknown rule''"]
  by (simp add: ex_defs
      run_defs)

end
